theory Spec2Isabelle
  imports Main "HOL-Library.AList"
begin

section \<open>Python values and exceptions\<close>

text \<open>
  The engine is Python. Every exception the modelled code can raise is a value of
  \<open>error\<close>; a function that may raise returns \<open>error + 'a\<close> with \<open>Inl\<close> for the
  exception. Strings are \<open>char list\<close> with one \<open>char\<close> per code point below 256.
\<close>

datatype error = IndexError | ValueError | KeyError | AttributeError

text \<open>\<open>s[i]\<close> on a Python string, for the literal indices the source uses.\<close>

definition car :: "string \<Rightarrow> nat \<Rightarrow> error + char" where
  "car s i = (if i < length s then Inr (s ! i) else Inl IndexError)"

text \<open>\<open>xs[i]\<close> on a Python list, where \<open>xs[-1]\<close> is the last element.\<close>

definition elem :: "'a list \<Rightarrow> int \<Rightarrow> error + 'a" where
  "elem xs i =
     (if 0 \<le> i \<and> i < int (length xs) then Inr (xs ! nat i)
      else if - int (length xs) \<le> i \<and> i < 0 then Inr (xs ! nat (i + int (length xs)))
      else Inl IndexError)"

text \<open>\<open>xs.index(x)\<close>: the first position of \<open>x\<close>, ValueError when absent.\<close>

fun index_de :: "'a list \<Rightarrow> 'a \<Rightarrow> error + int" where
  "index_de [] x = Inl ValueError"
| "index_de (y # ys) x =
     (if y = x then Inr 0
      else case index_de ys x of Inl e \<Rightarrow> Inl e | Inr i \<Rightarrow> Inr (i + 1))"

text \<open>
  \<open>c.lower()\<close> on a one-character string. The letters with a lower-case form that the
  table leaves out lie outside ASCII, and neither they nor their lower-case forms are
  file letters or digits.
\<close>

definition lower :: "char \<Rightarrow> char" where
  "lower c =
     (case map_of (zip ''ABCDEFGHIJKLMNOPQRSTUVWXYZ'' ''abcdefghijklmnopqrstuvwxyz'') c of
        Some c' \<Rightarrow> c' | None \<Rightarrow> c)"

text \<open>\<open>int(c)\<close> on a one-character string: a decimal digit, or ValueError.\<close>

definition int_de :: "char \<Rightarrow> error + int" where
  "int_de c = index_de ''0123456789'' c"

text \<open>\<open>str(i)\<close> for a Python integer.\<close>

fun str_nat :: "nat \<Rightarrow> string" where
  "str_nat n =
     (if n < 10 then [''0123456789'' ! n]
      else str_nat (n div 10) @ [''0123456789'' ! (n mod 10)])"

definition str :: "int \<Rightarrow> string" where
  "str i = (if i < 0 then CHR ''-'' # str_nat (nat (- i)) else str_nat (nat i))"

section \<open>Coordinate model: \<open>MovimientosTablero\<close>\<close>

definition COLUMNAS :: "char list" where
  "COLUMNAS = ''abcdefgh''"

definition notacion_a_posicion :: "string \<Rightarrow> error + (int \<times> int)" where
  "notacion_a_posicion notacion =
     (case car notacion 0 of Inl e \<Rightarrow> Inl e | Inr l \<Rightarrow>
     (case index_de COLUMNAS (lower l) of Inl e \<Rightarrow> Inl e | Inr col \<Rightarrow>
     (case car notacion 1 of Inl e \<Rightarrow> Inl e | Inr d \<Rightarrow>
     (case int_de d of Inl e \<Rightarrow> Inl e | Inr n \<Rightarrow>
      Inr (8 - n, col)))))"

definition posicion_a_notacion :: "int \<Rightarrow> int \<Rightarrow> error + string" where
  "posicion_a_notacion fila col =
     (case elem COLUMNAS col of Inl e \<Rightarrow> Inl e | Inr l \<Rightarrow> Inr (l # str (8 - fila)))"

definition dentro_tablero :: "int \<Rightarrow> int \<Rightarrow> bool" where
  "dentro_tablero fila col \<longleftrightarrow> 0 \<le> fila \<and> fila < 8 \<and> 0 \<le> col \<and> col < 8"

definition obtener_direccion_color :: "string \<Rightarrow> int" where
  "obtener_direccion_color color = (if color = ''B'' then - 1 else 1)"

definition obtener_fila_inicial :: "string \<Rightarrow> int" where
  "obtener_fila_inicial color = (if color = ''B'' then 6 else 1)"

section \<open>Moves\<close>

datatype TipoMovimiento = NORMAL | ENROQUE | EN_PASSANT | PROMOCION

text \<open>\<open>info_adicional\<close> is \<open>Optional[str]\<close>: \<open>None\<close> is Python's \<open>None\<close>.\<close>

record MovimientoAjedrez =
  desde :: string
  hasta :: string
  tipo :: TipoMovimiento
  info_adicional :: "string option"

section \<open>The board\<close>

text \<open>
  The board is a numpy array of shape (8, 8) and dtype \<open><U4\<close>. It is a function of the
  row and column index, of which only the indices 0 to 7 are read and written. On each axis
  numpy takes an index from -8 to -1 as counting from the end and raises IndexError
  outside -8 to 7.

  Cells hold at most four characters. Every string the executor writes is the content
  of a cell or a new id of at most four characters (one for the colour, one for the kind,
  and a number that never exceeds 10), so the truncation numpy applies on assignment
  never changes a value and is left out.
\<close>

type_synonym tablero = "int \<Rightarrow> int \<Rightarrow> string"

definition indice :: "int \<Rightarrow> error + int" where
  "indice i =
     (if 0 \<le> i \<and> i < 8 then Inr i
      else if - 8 \<le> i \<and> i < 0 then Inr (i + 8)
      else Inl IndexError)"

definition leer :: "tablero \<Rightarrow> int \<Rightarrow> int \<Rightarrow> error + string" where
  "leer t f c =
     (case indice f of Inl e \<Rightarrow> Inl e | Inr i \<Rightarrow>
     (case indice c of Inl e \<Rightarrow> Inl e | Inr j \<Rightarrow> Inr (t i j)))"

definition escribir :: "tablero \<Rightarrow> int \<Rightarrow> int \<Rightarrow> string \<Rightarrow> error + tablero" where
  "escribir t f c v =
     (case indice f of Inl e \<Rightarrow> Inl e | Inr i \<Rightarrow>
     (case indice c of Inl e \<Rightarrow> Inl e | Inr j \<Rightarrow> Inr (t(i := (t i)(j := v)))))"

text \<open>\<open>s.startswith(pre)\<close>.\<close>

definition startswith :: "string \<Rightarrow> string \<Rightarrow> bool" where
  "startswith s pre \<longleftrightarrow> take (length pre) s = pre"

section \<open>Pieces: \<open>Pieza\<close> and its subclasses\<close>

text \<open>
  The class of the object is the field \<open>clase\<close>. The last three fields are the slots
  that only \<open>Peon\<close> declares; the other classes do not have them and the model never
  reads them there.
\<close>

datatype clase = Peon | Torre | Caballo | Alfil | Queen | Rey

record Pieza =
  clase :: clase
  color :: string
  numero :: int
  ident :: string
  movida :: bool
  direccion :: int
  fila_inicial :: int
  movimiento_doble_reciente :: bool

text \<open>The first letter of the class name, as \<open>self.__class__.__name__[0]\<close> gives it.\<close>

fun inicial_clase :: "clase \<Rightarrow> char" where
  "inicial_clase Peon = CHR ''P''"
| "inicial_clase Torre = CHR ''T''"
| "inicial_clase Caballo = CHR ''C''"
| "inicial_clase Alfil = CHR ''A''"
| "inicial_clase Queen = CHR ''Q''"
| "inicial_clase Rey = CHR ''R''"

text \<open>
  \<open>Pieza.__init__\<close> followed, for a pawn, by \<open>Peon.__init__\<close>: the constructor call
  \<open>PIEZAS_FACTORY[tipo](color, numero, self)\<close>.
\<close>

definition crear_pieza :: "clase \<Rightarrow> string \<Rightarrow> int \<Rightarrow> Pieza" where
  "crear_pieza k col num =
     \<lparr> clase = k, color = col, numero = num,
       ident = col @ [inicial_clase k] @ str num,
       movida = False,
       direccion = (if k = Peon then obtener_direccion_color col else 0),
       fila_inicial = (if k = Peon then obtener_fila_inicial col else 0),
       movimiento_doble_reciente = False \<rparr>"

definition PIEZAS_FACTORY :: "(string \<times> clase) list" where
  "PIEZAS_FACTORY =
     [(''P'', Peon), (''T'', Torre), (''C'', Caballo), (''A'', Alfil), (''Q'', Queen),
      (''R'', Rey)]"

section \<open>Sliding pieces: \<open>Torre\<close>, \<open>Alfil\<close>, \<open>Queen\<close>\<close>

definition Torre_DIRECCIONES :: "(int \<times> int) list" where
  "Torre_DIRECCIONES = [(0, 1), (1, 0), (0, - 1), (- 1, 0)]"

definition Alfil_DIRECCIONES :: "(int \<times> int) list" where
  "Alfil_DIRECCIONES = [(1, 1), (1, - 1), (- 1, 1), (- 1, - 1)]"

definition Queen_DIRECCIONES :: "(int \<times> int) list" where
  "Queen_DIRECCIONES =
     [(0, 1), (0, - 1), (1, 0), (- 1, 0), (1, 1), (1, - 1), (- 1, 1), (- 1, - 1)]"

text \<open>
  The three \<open>obtener_hijos\<close> have the same body and differ in \<open>DIRECCIONES\<close> only.
  \<open>rayo\<close> is the inner loop \<open>for _ in range(1, 8)\<close> with the number of iterations
  left; \<open>rayos\<close> is the outer loop over the directions. \<open>pieza_destino[0]\<close> raises
  IndexError on an empty string.
\<close>

fun rayo :: "string \<Rightarrow> string \<Rightarrow> tablero \<Rightarrow> int \<times> int \<Rightarrow> nat \<Rightarrow> int \<Rightarrow> int \<Rightarrow> string list
    \<Rightarrow> error + string list" where
  "rayo col pos_actual_not tablero (df, dc) 0 nueva_f nueva_c movimientos = Inr movimientos"
| "rayo col pos_actual_not tablero (df, dc) (Suc n) nueva_f nueva_c movimientos =
     (if \<not> dentro_tablero (nueva_f + df) (nueva_c + dc) then Inr movimientos
      else case leer tablero (nueva_f + df) (nueva_c + dc) of Inl e \<Rightarrow> Inl e
      | Inr pieza_destino \<Rightarrow>
          if pieza_destino = ''...'' then
            (case posicion_a_notacion (nueva_f + df) (nueva_c + dc) of Inl e \<Rightarrow> Inl e
             | Inr dest \<Rightarrow>
                 rayo col pos_actual_not tablero (df, dc) n (nueva_f + df) (nueva_c + dc)
                   (movimientos @ [pos_actual_not @ '' '' @ dest]))
          else
            (case car pieza_destino 0 of Inl e \<Rightarrow> Inl e
             | Inr p \<Rightarrow>
                 if [p] \<noteq> col then
                   (case posicion_a_notacion (nueva_f + df) (nueva_c + dc) of Inl e \<Rightarrow> Inl e
                    | Inr dest \<Rightarrow> Inr (movimientos @ [pos_actual_not @ '' '' @ dest]))
                 else Inr movimientos))"

fun rayos :: "string \<Rightarrow> string \<Rightarrow> tablero \<Rightarrow> int \<Rightarrow> int \<Rightarrow> (int \<times> int) list \<Rightarrow> string list
    \<Rightarrow> error + string list" where
  "rayos col pos_actual_not tablero f c [] movimientos = Inr movimientos"
| "rayos col pos_actual_not tablero f c (d # ds) movimientos =
     (case rayo col pos_actual_not tablero d 7 f c movimientos of Inl e \<Rightarrow> Inl e
      | Inr movimientos' \<Rightarrow> rayos col pos_actual_not tablero f c ds movimientos')"

definition Torre_obtener_hijos :: "Pieza \<Rightarrow> int \<times> int \<Rightarrow> tablero \<Rightarrow> error + string list" where
  "Torre_obtener_hijos self pos_actual tablero =
     (case pos_actual of (f, c) \<Rightarrow>
       (case posicion_a_notacion f c of Inl e \<Rightarrow> Inl e
        | Inr pos_actual_not \<Rightarrow>
            rayos (color self) pos_actual_not tablero f c Torre_DIRECCIONES []))"

definition Alfil_obtener_hijos :: "Pieza \<Rightarrow> int \<times> int \<Rightarrow> tablero \<Rightarrow> error + string list" where
  "Alfil_obtener_hijos self pos_actual tablero =
     (case pos_actual of (f, c) \<Rightarrow>
       (case posicion_a_notacion f c of Inl e \<Rightarrow> Inl e
        | Inr pos_actual_not \<Rightarrow>
            rayos (color self) pos_actual_not tablero f c Alfil_DIRECCIONES []))"

definition Queen_obtener_hijos :: "Pieza \<Rightarrow> int \<times> int \<Rightarrow> tablero \<Rightarrow> error + string list" where
  "Queen_obtener_hijos self pos_actual tablero =
     (case pos_actual of (f, c) \<Rightarrow>
       (case posicion_a_notacion f c of Inl e \<Rightarrow> Inl e
        | Inr pos_actual_not \<Rightarrow>
            rayos (color self) pos_actual_not tablero f c Queen_DIRECCIONES []))"

text \<open>
  What the loop is proved to compute (this is not code of the repository): \<open>alcanza\<close>
  says that the square \<open>k\<close> steps along a direction is a destination, walking the ray
  square by square. The theorems relate it to \<open>rayo\<close> and give its closed form.
\<close>

fun alcanza :: "tablero \<Rightarrow> string \<Rightarrow> int \<times> int \<Rightarrow> int \<Rightarrow> int \<Rightarrow> nat \<Rightarrow> bool" where
  "alcanza t col (df, dc) f c 0 = False"
| "alcanza t col (df, dc) f c (Suc 0) =
     (dentro_tablero (f + df) (c + dc)
      \<and> (t (f + df) (c + dc) = ''...'' \<or> take 1 (t (f + df) (c + dc)) \<noteq> col))"
| "alcanza t col (df, dc) f c (Suc (Suc k)) =
     (dentro_tablero (f + df) (c + dc) \<and> t (f + df) (c + dc) = ''...''
      \<and> alcanza t col (df, dc) (f + df) (c + dc) (Suc k))"

section \<open>The pawn: \<open>Peon.obtener_hijos\<close>\<close>

text \<open>The forward moves: one square, and two from the starting row.\<close>

definition Peon_avances :: "Pieza \<Rightarrow> string \<Rightarrow> int \<Rightarrow> int \<Rightarrow> tablero \<Rightarrow> error + string list" where
  "Peon_avances self pos_actual_not f c tablero =
     (if \<not> dentro_tablero (f + direccion self) c then Inr []
      else case leer tablero (f + direccion self) c of Inl e \<Rightarrow> Inl e
      | Inr pieza1 \<Rightarrow>
          if pieza1 \<noteq> ''...'' then Inr []
          else (case posicion_a_notacion (f + direccion self) c of Inl e \<Rightarrow> Inl e
          | Inr dest1 \<Rightarrow>
              if \<not> movida self \<and> f = fila_inicial self then
                (if \<not> dentro_tablero (f + 2 * direccion self) c
                 then Inr [pos_actual_not @ '' '' @ dest1]
                 else case leer tablero (f + 2 * direccion self) c of Inl e \<Rightarrow> Inl e
                 | Inr pieza2 \<Rightarrow>
                     if pieza2 = ''...'' then
                       (case posicion_a_notacion (f + 2 * direccion self) c of
                          Inl e \<Rightarrow> Inl e
                        | Inr dest2 \<Rightarrow>
                            Inr [pos_actual_not @ '' '' @ dest1, pos_actual_not @ '' '' @ dest2])
                     else Inr [pos_actual_not @ '' '' @ dest1])
              else Inr [pos_actual_not @ '' '' @ dest1]))"

text \<open>The loop \<open>for dc in [-1, 1]\<close> over the two diagonal captures.\<close>

fun Peon_capturas :: "Pieza \<Rightarrow> string \<Rightarrow> int \<Rightarrow> int \<Rightarrow> tablero \<Rightarrow> int list \<Rightarrow> string list
    \<Rightarrow> error + string list" where
  "Peon_capturas self pos_actual_not f c tablero [] movimientos = Inr movimientos"
| "Peon_capturas self pos_actual_not f c tablero (dc # dcs) movimientos =
     (if dentro_tablero (f + direccion self) (c + dc) then
        (case leer tablero (f + direccion self) (c + dc) of Inl e \<Rightarrow> Inl e
         | Inr pieza \<Rightarrow>
             if pieza \<noteq> ''...'' then
               (case car pieza 0 of Inl e \<Rightarrow> Inl e
                | Inr p \<Rightarrow>
                    if [p] \<noteq> color self then
                      (case posicion_a_notacion (f + direccion self) (c + dc) of
                         Inl e \<Rightarrow> Inl e
                       | Inr dest \<Rightarrow>
                           Peon_capturas self pos_actual_not f c tablero dcs
                             (movimientos @ [pos_actual_not @ '' '' @ dest]))
                    else Peon_capturas self pos_actual_not f c tablero dcs movimientos)
             else Peon_capturas self pos_actual_not f c tablero dcs movimientos)
      else Peon_capturas self pos_actual_not f c tablero dcs movimientos)"

definition Peon_obtener_hijos :: "Pieza \<Rightarrow> int \<times> int \<Rightarrow> tablero \<Rightarrow> error + string list" where
  "Peon_obtener_hijos self pos_actual tablero =
     (case pos_actual of (f, c) \<Rightarrow>
       (case posicion_a_notacion f c of Inl e \<Rightarrow> Inl e
        | Inr pos_actual_not \<Rightarrow>
           (case Peon_avances self pos_actual_not f c tablero of Inl e \<Rightarrow> Inl e
            | Inr movimientos \<Rightarrow>
                Peon_capturas self pos_actual_not f c tablero [- 1, 1] movimientos)))"

section \<open>The registry: \<open>GestorPiezas\<close>\<close>

text \<open>
  \<open>self.piezas\<close> is a dict from ids to piece objects, here the list of its items in
  insertion order: \<open>map_of\<close> reads a key, \<open>AList.delete\<close> is \<open>del\<close> and
  \<open>AList.update\<close> is assignment to a key.
\<close>

type_synonym gestor = "(string \<times> Pieza) list"

definition get_pieza :: "gestor \<Rightarrow> string \<Rightarrow> Pieza option" where
  "get_pieza piezas id_pieza = map_of piezas id_pieza"

text \<open>The set \<open>piezas_en_tablero\<close> that \<open>sincronizar_con_tablero\<close> collects.\<close>

definition piezas_en_tablero :: "tablero \<Rightarrow> string set" where
  "piezas_en_tablero tablero =
     set (filter (\<lambda>pieza_id. pieza_id \<noteq> ''...'')
            (concat (map (\<lambda>i. map (\<lambda>j. tablero i j) [0..7]) [0..7])))"

definition sincronizar_con_tablero :: "gestor \<Rightarrow> tablero \<Rightarrow> gestor" where
  "sincronizar_con_tablero piezas tablero =
     filter (\<lambda>(pieza_id, pieza). pieza_id \<in> piezas_en_tablero tablero) piezas"

section \<open>The king's castling: \<open>Rey.obtener_movimientos_especiales\<close>\<close>

text \<open>
  The loop of \<open>_verificar_enroque\<close> from the column \<open>col_actual\<close> on. It ends: each
  iteration reads the board at \<open>col_actual\<close>, which raises IndexError outside -8 to 7,
  and \<open>col_actual\<close> moves by one in a fixed direction.
\<close>

function verificar_enroque_desde :: "tablero \<Rightarrow> int \<Rightarrow> int \<Rightarrow> int \<Rightarrow> int \<Rightarrow> error + bool" where
  "verificar_enroque_desde tablero fila col_inicial col_torre col_actual =
     (if col_actual \<noteq> col_torre then
        (case leer tablero fila col_actual of Inl e \<Rightarrow> Inl e
         | Inr pieza \<Rightarrow>
             if pieza \<noteq> ''...'' then Inr False
             else verificar_enroque_desde tablero fila col_inicial col_torre
                    (col_actual + (if col_torre > col_inicial then 1 else - 1)))
      else Inr True)"
  by pat_completeness auto
termination
  by (relation "measure (\<lambda>(tablero, fila, col_inicial, col_torre, col_actual).
        if col_torre > col_inicial then nat (8 - col_actual) else nat (col_actual + 9))")
     (auto simp: leer_def indice_def split: sum.splits if_splits)

definition verificar_enroque :: "tablero \<Rightarrow> int \<Rightarrow> int \<Rightarrow> int \<Rightarrow> error + bool" where
  "verificar_enroque tablero fila col_inicial col_torre =
     verificar_enroque_desde tablero fila col_inicial col_torre
       (col_inicial + (if col_torre > col_inicial then 1 else - 1))"

text \<open>
  One side of the castling: the test on the rook's corner, the rook's record and the
  path, and the move it appends. \<open>torre and not torre.movida and ...\<close> evaluates the
  path check only for a registered, unmoved rook.
\<close>

definition enroque_lado :: "gestor \<Rightarrow> tablero \<Rightarrow> int \<Rightarrow> string \<Rightarrow> int \<Rightarrow> int \<Rightarrow> string
    \<Rightarrow> error + MovimientoAjedrez list" where
  "enroque_lado piezas tablero fila_rey torre_id col_torre col_hasta nombre =
     (case leer tablero fila_rey col_torre of Inl e \<Rightarrow> Inl e
      | Inr torre_en_esquina \<Rightarrow>
          if torre_en_esquina = torre_id then
            (case get_pieza piezas torre_id of None \<Rightarrow> Inr []
             | Some torre \<Rightarrow>
                 if movida torre then Inr []
                 else (case verificar_enroque tablero fila_rey 4 col_torre of Inl e \<Rightarrow> Inl e
                 | Inr libre \<Rightarrow>
                     if libre then
                       (case posicion_a_notacion fila_rey 4 of Inl e \<Rightarrow> Inl e
                        | Inr d \<Rightarrow>
                           (case posicion_a_notacion fila_rey col_hasta of Inl e \<Rightarrow> Inl e
                            | Inr h \<Rightarrow>
                                Inr [\<lparr> desde = d, hasta = h, tipo = ENROQUE,
                                       info_adicional = Some nombre \<rparr>]))
                     else Inr []))
          else Inr [])"

definition Rey_obtener_movimientos_especiales ::
    "Pieza \<Rightarrow> gestor \<Rightarrow> int \<times> int \<Rightarrow> tablero \<Rightarrow> error + MovimientoAjedrez list" where
  "Rey_obtener_movimientos_especiales self piezas pos_actual tablero =
     (if movida self then Inr []
      else
        (let fila_rey = (if color self = ''B'' then 7 else 0);
             torre_corto_id = (if color self = ''B'' then ''BT2'' else ''NT2'');
             torre_largo_id = (if color self = ''B'' then ''BT1'' else ''NT1'')
         in case enroque_lado piezas tablero fila_rey torre_corto_id 7 6 ''O-O'' of
              Inl e \<Rightarrow> Inl e
            | Inr corto \<Rightarrow>
               (case enroque_lado piezas tablero fila_rey torre_largo_id 0 2 ''O-O-O'' of
                  Inl e \<Rightarrow> Inl e
                | Inr largo \<Rightarrow> Inr (corto @ largo))))"

section \<open>The executor: \<open>GestorPiezas.ejecutar_movimiento\<close>\<close>

text \<open>
  The loop of the promotion branch over the registry's keys, looking for the largest
  number in use. Only the ValueError of \<open>int(pid[2])\<close> is caught (and the key skipped);
  the IndexError of \<open>pid[2]\<close> is not.
\<close>

fun max_num_de :: "string \<Rightarrow> string list \<Rightarrow> int \<Rightarrow> error + int" where
  "max_num_de prefijo [] max_num = Inr max_num"
| "max_num_de prefijo (pid # pids) max_num =
     (if startswith pid prefijo then
        (case car pid 2 of Inl e \<Rightarrow> Inl e
         | Inr d \<Rightarrow>
            (case int_de d of Inl e \<Rightarrow> max_num_de prefijo pids max_num
             | Inr num \<Rightarrow> max_num_de prefijo pids (max max_num num)))
      else max_num_de prefijo pids max_num)"

text \<open>\<open>f"{tipo}"\<close> for an optional string.\<close>

definition formato :: "string option \<Rightarrow> string" where
  "formato x = (case x of None \<Rightarrow> ''None'' | Some s \<Rightarrow> s)"

text \<open>\<open>PIEZAS_FACTORY[tipo]\<close>: KeyError for a key that is not in the dict.\<close>

definition factory :: "string option \<Rightarrow> error + clase" where
  "factory x =
     (case x of None \<Rightarrow> Inl KeyError
      | Some t \<Rightarrow> (case map_of PIEZAS_FACTORY t of None \<Rightarrow> Inl KeyError | Some k \<Rightarrow> Inr k))"

text \<open>
  The registry is mutated in place, so the function returns the registry with the result,
  also when it raises: an exception leaves the deletions made before it in place.
\<close>

text \<open>The capture at the destination.\<close>

definition eliminar_capturada :: "gestor \<Rightarrow> string \<Rightarrow> TipoMovimiento \<Rightarrow> gestor" where
  "eliminar_capturada piezas pieza_destino_id t =
     (if pieza_destino_id \<noteq> ''...'' \<and> t \<noteq> ENROQUE then AList.delete pieza_destino_id piezas
      else piezas)"

text \<open>The branch \<open>PROMOCION\<close>.\<close>

definition ejecutar_promocion ::
    "gestor \<Rightarrow> tablero \<Rightarrow> string \<Rightarrow> string option \<Rightarrow> int \<Rightarrow> int \<Rightarrow> int \<Rightarrow> int
     \<Rightarrow> (error + tablero) \<times> gestor" where
  "ejecutar_promocion piezas nuevo_tablero pieza_id info f_desde c_desde f_hasta c_hasta =
     (case car pieza_id 0 of Inl e \<Rightarrow> (Inl e, piezas)
      | Inr c0 \<Rightarrow>
         (case max_num_de ([c0] @ formato info) (map fst piezas) 0 of
            Inl e \<Rightarrow> (Inl e, piezas)
          | Inr max_num \<Rightarrow>
             (case factory info of Inl e \<Rightarrow> (Inl e, AList.delete pieza_id piezas)
              | Inr k \<Rightarrow>
                 (let nuevo_num = max_num + 1;
                      nuevo_id = [c0] @ formato info @ str nuevo_num;
                      piezas' = AList.update nuevo_id (crear_pieza k [c0] nuevo_num)
                                  (AList.delete pieza_id piezas)
                  in case escribir nuevo_tablero f_desde c_desde ''...'' of
                       Inl e \<Rightarrow> (Inl e, piezas')
                     | Inr t1 \<Rightarrow>
                        (case escribir t1 f_hasta c_hasta nuevo_id of
                           Inl e \<Rightarrow> (Inl e, piezas')
                         | Inr t2 \<Rightarrow> (Inr t2, piezas'))))))"

text \<open>
  The last branch, for \<open>NORMAL\<close> and \<open>EN_PASSANT\<close>. \<open>pieza\<close> is the object found under
  \<open>pieza_id\<close> before the capture was deleted: the flags are set on that object, which
  the registry still holds unless the capture removed it. With no such object,
  \<open>pieza.movida = True\<close> raises AttributeError.
\<close>

definition ejecutar_normal ::
    "gestor \<Rightarrow> tablero \<Rightarrow> string \<Rightarrow> Pieza option \<Rightarrow> int \<Rightarrow> int \<Rightarrow> int \<Rightarrow> int
     \<Rightarrow> (error + tablero) \<times> gestor" where
  "ejecutar_normal piezas nuevo_tablero pieza_id pieza f_desde c_desde f_hasta c_hasta =
     (case escribir nuevo_tablero f_hasta c_hasta pieza_id of Inl e \<Rightarrow> (Inl e, piezas)
      | Inr t1 \<Rightarrow>
         (case escribir t1 f_desde c_desde ''...'' of Inl e \<Rightarrow> (Inl e, piezas)
          | Inr t2 \<Rightarrow>
             (case pieza of None \<Rightarrow> (Inl AttributeError, piezas)
              | Some p \<Rightarrow>
                 (let p' = (if clase p = Peon
                            then p\<lparr>movimiento_doble_reciente := (\<bar>f_hasta - f_desde\<bar> = 2)\<rparr>
                            else p);
                      p'' = p'\<lparr>movida := True\<rparr>
                  in (Inr t2,
                      if map_of piezas pieza_id = None then piezas
                      else AList.update pieza_id p'' piezas)))))"

definition ejecutar_movimiento ::
    "MovimientoAjedrez \<Rightarrow> tablero \<Rightarrow> gestor \<Rightarrow> (error + tablero) \<times> gestor" where
  "ejecutar_movimiento movimiento tablero piezas =
     (case notacion_a_posicion (desde movimiento) of Inl e \<Rightarrow> (Inl e, piezas)
      | Inr (f_desde, c_desde) \<Rightarrow>
     (case notacion_a_posicion (hasta movimiento) of Inl e \<Rightarrow> (Inl e, piezas)
      | Inr (f_hasta, c_hasta) \<Rightarrow>
     (case leer tablero f_desde c_desde of Inl e \<Rightarrow> (Inl e, piezas)
      | Inr pieza_id \<Rightarrow>
     (case leer tablero f_hasta c_hasta of Inl e \<Rightarrow> (Inl e, piezas)
      | Inr pieza_destino_id \<Rightarrow>
         (let pieza = get_pieza piezas pieza_id;
              piezas1 = eliminar_capturada piezas pieza_destino_id (tipo movimiento);
              (r, piezas2) =
                (if tipo movimiento = PROMOCION then
                   ejecutar_promocion piezas1 tablero pieza_id (info_adicional movimiento)
                     f_desde c_desde f_hasta c_hasta
                 else if tipo movimiento = ENROQUE then (Inr tablero, piezas1)
                 else ejecutar_normal piezas1 tablero pieza_id pieza
                        f_desde c_desde f_hasta c_hasta)
          in case r of Inl e \<Rightarrow> (Inl e, piezas2)
             | Inr nuevo_tablero \<Rightarrow>
                 (Inr nuevo_tablero, sincronizar_con_tablero piezas2 nuevo_tablero))))))"

section \<open>The driver: \<open>AgenteAjedrez.mover\<close>\<close>

text \<open>
  The agent's state. \<open>agente_color\<close> is the field \<open>color\<close> (1 for white, -1 for black).
  The fields \<open>padre\<close> and \<open>hijos\<close> of the search tree are never read or written by
  \<open>mover\<close> and are left out.
\<close>

record AgenteAjedrez =
  agente_color :: int
  max_profundidad :: int
  visitados :: "tablero set"
  gestor_piezas :: gestor
  estado :: tablero

text \<open>
  \<open>verificar_consistencia\<close> compares the two sets and changes nothing; \<open>mover\<close> calls
  it after a move and discards its result, so it does not appear in \<open>mover\<close> below.
\<close>

definition verificar_consistencia :: "AgenteAjedrez \<Rightarrow> bool" where
  "verificar_consistencia self \<longleftrightarrow>
     piezas_en_tablero (estado self) = set (map fst (gestor_piezas self))"

text \<open>
  The move that \<open>mover\<close> builds from the text, or the value it returns early. A bare
  \<open>return\<close> gives Python's \<open>None\<close>, which is \<open>None\<close> here; \<open>Some b\<close> is the Boolean
  \<open>b\<close>.
\<close>

definition construir_movimiento ::
    "AgenteAjedrez \<Rightarrow> string \<Rightarrow> string \<Rightarrow> error + (bool option + MovimientoAjedrez)" where
  "construir_movimiento self cadena promocion_pieza =
     (if cadena = ''O-O'' \<or> cadena = ''O-O-O'' then
        (let fila = (if agente_color self = 1 then 7 else 0);
             desde_e = ''e'' @ str (8 - fila)
         in case car desde_e 1 of Inl e \<Rightarrow> Inl e
            | Inr d1 \<Rightarrow>
                Inr (Inr \<lparr> desde = desde_e,
                           hasta = (if cadena = ''O-O'' then ''g'' @ [d1] else ''c'' @ [d1]),
                           tipo = ENROQUE, info_adicional = Some cadena \<rparr>))
      else
       (case car cadena 0 of Inl e \<Rightarrow> Inl e | Inr k0 \<Rightarrow>
       (case car cadena 1 of Inl e \<Rightarrow> Inl e | Inr k1 \<Rightarrow>
       (case car cadena 3 of Inl e \<Rightarrow> Inl e | Inr k3 \<Rightarrow>
       (case car cadena 4 of Inl e \<Rightarrow> Inl e | Inr k4 \<Rightarrow>
       (case notacion_a_posicion [k0, k1] of Inl e \<Rightarrow> Inl e | Inr (f_desde, c_desde) \<Rightarrow>
       (case leer (estado self) f_desde c_desde of Inl e \<Rightarrow> Inl e | Inr id_pieza \<Rightarrow>
          if id_pieza = ''...'' then Inr (Inl (Some False))
          else if (agente_color self = 1 \<and> \<not> startswith id_pieza ''B'')
                  \<or> (agente_color self = - 1 \<and> startswith id_pieza ''B'')
          then Inr (Inl (Some False))
          else (case car id_pieza 1 of Inl e \<Rightarrow> Inl e
          | Inr t \<Rightarrow>
              if t = CHR ''P'' \<and> (k4 = CHR ''8'' \<or> k4 = CHR ''1'') then
                Inr (Inr \<lparr> desde = [k0, k1], hasta = [k3, k4], tipo = PROMOCION,
                           info_adicional = Some promocion_pieza \<rparr>)
              else
                Inr (Inr \<lparr> desde = [k0, k1], hasta = [k3, k4], tipo = NORMAL,
                           info_adicional = None \<rparr>)))))))))"

definition mover ::
    "AgenteAjedrez \<Rightarrow> string \<Rightarrow> string \<Rightarrow> (error + bool option) \<times> AgenteAjedrez" where
  "mover self cadena promocion_pieza =
     (if promocion_pieza = ''P'' \<or> promocion_pieza = ''R'' then (Inr None, self)
      else
        (case construir_movimiento self cadena promocion_pieza of Inl e \<Rightarrow> (Inl e, self)
         | Inr (Inl r) \<Rightarrow> (Inr r, self)
         | Inr (Inr movimiento) \<Rightarrow>
            (case ejecutar_movimiento movimiento (estado self) (gestor_piezas self) of
               (Inl e, piezas') \<Rightarrow> (Inl e, self\<lparr>gestor_piezas := piezas'\<rparr>)
             | (Inr nuevo_estado, piezas') \<Rightarrow>
                 (Inr (Some True),
                  self\<lparr>gestor_piezas := piezas', estado := nuevo_estado,
                       visitados := insert nuevo_estado (visitados self)\<rparr>))))"

section \<open>Positions of the repository's own tests, and others\<close>

text \<open>\<open>np.full((8, 8), '...')\<close>, and \<open>tablero[f][c] = v\<close> for a square of the board.\<close>

definition tablero_vacio :: tablero where
  "tablero_vacio = (\<lambda>i j. ''...'')"

definition poner :: "tablero \<Rightarrow> int \<Rightarrow> int \<Rightarrow> string \<Rightarrow> tablero" where
  "poner t f c v = t(f := (t f)(c := v))"

text \<open>
  The board \<open>tablero_enroque\<close> of the castling test at the end of \<open>piezas.py\<close>, with the
  registry holding its six pieces, none of which has moved.
\<close>

definition tablero_enroque :: tablero where
  "tablero_enroque =
     poner (poner (poner (poner (poner (poner tablero_vacio
       7 4 ''BR1'') 7 7 ''BT2'') 7 0 ''BT1'') 0 4 ''NR1'') 0 7 ''NT2'') 0 0 ''NT1''"

definition gestor_enroque :: gestor where
  "gestor_enroque =
     [(''BT1'', crear_pieza Torre ''B'' 1), (''BT2'', crear_pieza Torre ''B'' 2),
      (''BR1'', crear_pieza Rey ''B'' 1),
      (''NT1'', crear_pieza Torre ''N'' 1), (''NT2'', crear_pieza Torre ''N'' 2),
      (''NR1'', crear_pieza Rey ''N'' 1)]"

definition enroque_corto :: MovimientoAjedrez where
  "enroque_corto =
     \<lparr> desde = ''e1'', hasta = ''g1'', tipo = ENROQUE, info_adicional = Some ''O-O'' \<rparr>"

text \<open>
  The en-passant position of the spec: the white pawn \<open>BP5\<close> on e5, the black pawn
  \<open>NP4\<close> beside it on d5 after its double step, and the capture from e5 to d6.
\<close>

definition tablero_al_paso :: tablero where
  "tablero_al_paso =
     poner (poner (poner (poner tablero_vacio
       7 4 ''BR1'') 0 4 ''NR1'') 3 4 ''BP5'') 3 3 ''NP4''"

definition gestor_al_paso :: gestor where
  "gestor_al_paso =
     [(''BP5'', (crear_pieza Peon ''B'' 5)\<lparr>movida := True\<rparr>),
      (''BR1'', crear_pieza Rey ''B'' 1),
      (''NP4'', (crear_pieza Peon ''N'' 4)\<lparr>movida := True, movimiento_doble_reciente := True\<rparr>),
      (''NR1'', crear_pieza Rey ''N'' 1)]"

definition captura_al_paso :: MovimientoAjedrez where
  "captura_al_paso =
     \<lparr> desde = ''e5'', hasta = ''d6'', tipo = EN_PASSANT, info_adicional = None \<rparr>"

text \<open>
  The board of the promotion test at the end of \<open>piezas.py\<close>: the white pawn \<open>BP1\<close> on
  a7 and the two kings, with the registry holding these three pieces.
\<close>

definition tablero_promocion :: tablero where
  "tablero_promocion =
     poner (poner (poner tablero_vacio 1 0 ''BP1'') 0 4 ''NR1'') 7 4 ''BR1''"

definition gestor_promocion :: gestor where
  "gestor_promocion =
     [(''BP1'', (crear_pieza Peon ''B'' 1)\<lparr>movida := True\<rparr>),
      (''BR1'', crear_pieza Rey ''B'' 1), (''NR1'', crear_pieza Rey ''N'' 1)]"

definition promocion_a_reina :: MovimientoAjedrez where
  "promocion_a_reina =
     \<lparr> desde = ''a7'', hasta = ''a8'', tipo = PROMOCION, info_adicional = Some ''Q'' \<rparr>"

text \<open>
  A board that came from another agent, as the script at the end of \<open>ajedrez.py\<close> passes
  boards between its two agents: it holds the queen \<open>BQ2\<close> that the other agent's
  registry created in a promotion, which this registry has never seen.
\<close>

definition tablero_ajeno :: tablero where
  "tablero_ajeno =
     poner (poner (poner tablero_vacio 0 0 ''BQ2'') 0 4 ''NR1'') 7 4 ''BR1''"

definition gestor_ajeno :: gestor where
  "gestor_ajeno = [(''BR1'', crear_pieza Rey ''B'' 1), (''NR1'', crear_pieza Rey ''N'' 1)]"

definition paso_de_rey :: MovimientoAjedrez where
  "paso_de_rey = \<lparr> desde = ''e8'', hasta = ''e7'', tipo = NORMAL, info_adicional = None \<rparr>"

text \<open>
  A board with the white pawn \<open>BP5\<close> on e2 and the black pawn \<open>NP3\<close> on c7, both
  on their starting rows with the two squares in front of them empty.
\<close>

definition tablero_peones :: tablero where
  "tablero_peones =
     poner (poner (poner (poner tablero_vacio
       7 4 ''BR1'') 0 4 ''NR1'') 6 4 ''BP5'') 1 2 ''NP3''"

text \<open>
  A board for the sliding pieces: the white queen \<open>BQ1\<close> on d4, the white pawn \<open>BP4\<close>
  on d2, the black pawn \<open>NP4\<close> on d7 and the black knight \<open>NC1\<close> on f6, with the kings.
\<close>

definition tablero_rayos :: tablero where
  "tablero_rayos =
     poner (poner (poner (poner (poner (poner tablero_vacio
       7 4 ''BR1'') 0 4 ''NR1'') 4 3 ''BQ1'') 6 3 ''BP4'') 1 3 ''NP4'') 2 5 ''NC1''"

section \<open>Basic facts\<close>

lemma index_de_Inl_iff: "(\<exists>e. index_de xs x = Inl e) \<longleftrightarrow> x \<notin> set xs"
  by (induction xs) (auto split: sum.splits)

lemma index_de_nth:
  "distinct xs \<Longrightarrow> i < length xs \<Longrightarrow> index_de xs (xs ! i) = Inr (int i)"
proof (induction xs arbitrary: i)
  case Nil
  then show ?case by simp
next
  case (Cons y ys)
  show ?case
  proof (cases i)
    case 0
    then show ?thesis by simp
  next
    case (Suc k)
    with Cons.prems have "ys ! k \<noteq> y" "k < length ys" "distinct ys" by auto
    with Cons.IH [of k] Suc show ?thesis by simp
  qed
qed

lemma leer_dentro: "dentro_tablero f c \<Longrightarrow> leer t f c = Inr (t f c)"
  by (simp add: leer_def indice_def dentro_tablero_def)

lemma escribir_dentro:
  "dentro_tablero f c \<Longrightarrow> escribir t f c v = Inr (t(f := (t f)(c := v)))"
  by (simp add: escribir_def indice_def dentro_tablero_def)

section \<open>The coordinate model\<close>

text \<open>
  Claim C9 as stated, that \<open>notacion_a_posicion\<close> fails whenever the rank digit is
  outside 1 to 8, does not hold: the digit 9 is accepted and gives the row index -1,
  which is not on the board.
\<close>

theorem notacion_a9_counterexample:
  "notacion_a_posicion ''a9'' = Inr (- 1, 0) \<and> \<not> dentro_tablero (- 1) 0"
  by (simp add: notacion_a_posicion_def car_def COLUMNAS_def lower_def int_de_def
      dentro_tablero_def)

text \<open>
  Claim C9, amended. \<open>notacion_a_posicion\<close> raises exactly when the text has fewer than
  two characters, or its first character, put in lower case, is not one of a to h, or its
  second character is not a decimal digit. For a letter a to h (in either case) and any
  digit \<open>d\<close> it returns the row \<open>8 - d\<close> and the column that is the letter's position;
  that square is on the board exactly for the digits 1 to 8.
\<close>

theorem notacion_a_posicion_falla_sii:
  "((\<exists>e. notacion_a_posicion n = Inl e) \<longleftrightarrow>
      (length n < 2 \<or> lower (n ! 0) \<notin> set COLUMNAS \<or> n ! 1 \<notin> set ''0123456789''))
   \<and> (\<forall>col d. 2 \<le> length n \<and> 0 \<le> col \<and> col < 8 \<and> lower (n ! 0) = COLUMNAS ! nat col
         \<and> 0 \<le> d \<and> d \<le> 9 \<and> n ! 1 = ''0123456789'' ! nat d
       \<longrightarrow> notacion_a_posicion n = Inr (8 - d, col)
           \<and> (dentro_tablero (8 - d) col \<longleftrightarrow> 1 \<le> d \<and> d \<le> 8))"
proof (intro conjI allI impI)
  have a: "\<And>x. (\<exists>e. index_de COLUMNAS x = Inl e) \<longleftrightarrow> x \<notin> set COLUMNAS"
    by (rule index_de_Inl_iff)
  have b: "\<And>x. (\<exists>e. int_de x = Inl e) \<longleftrightarrow> x \<notin> set ''0123456789''"
    unfolding int_de_def by (rule index_de_Inl_iff)
  show "(\<exists>e. notacion_a_posicion n = Inl e) \<longleftrightarrow>
      (length n < 2 \<or> lower (n ! 0) \<notin> set COLUMNAS \<or> n ! 1 \<notin> set ''0123456789'')"
  proof (cases "length n < 2")
    case True
    then show ?thesis
      by (auto simp: notacion_a_posicion_def car_def split: sum.splits)
  next
    case False
    then have l: "0 < length n" "1 < length n" by auto
    show ?thesis
      using a [of "lower (n ! 0)"] b [of "n ! 1"] l False
      by (auto simp: notacion_a_posicion_def car_def split: sum.splits)
  qed
next
  fix col d :: int
  assume h: "2 \<le> length n \<and> 0 \<le> col \<and> col < 8 \<and> lower (n ! 0) = COLUMNAS ! nat col
         \<and> 0 \<le> d \<and> d \<le> 9 \<and> n ! 1 = ''0123456789'' ! nat d"
  have c: "index_de COLUMNAS (COLUMNAS ! nat col) = Inr (int (nat col))"
  proof (rule index_de_nth)
    show "distinct COLUMNAS" by (simp add: COLUMNAS_def)
    have "length COLUMNAS = 8" by (simp add: COLUMNAS_def)
    with h show "nat col < length COLUMNAS" by linarith
  qed
  have d: "index_de ''0123456789'' (''0123456789'' ! nat d) = Inr (int (nat d))"
  proof (rule index_de_nth)
    show "distinct ''0123456789''" by simp
    have "length ''0123456789'' = 10" by simp
    with h show "nat d < length ''0123456789''" by linarith
  qed
  from h have "0 < length n" "1 < length n" by linarith+
  then have k: "car n 0 = Inr (n ! 0)" "car n 1 = Inr (n ! 1)"
    by (simp_all add: car_def)
  from h c have c': "index_de COLUMNAS (lower (n ! 0)) = Inr col" by simp
  from h d have d': "int_de (n ! 1) = Inr d" by (simp only: int_de_def) simp
  from k c' d' show "notacion_a_posicion n = Inr (8 - d, col)"
    by (simp add: notacion_a_posicion_def)
  from h show "dentro_tablero (8 - d) col \<longleftrightarrow> 1 \<le> d \<and> d \<le> 8"
    by (auto simp: dentro_tablero_def)
qed

theorem notacion_a_posicion_falla_sii_witness:
  "notacion_a_posicion ''e2'' = Inr (6, 4) \<and> dentro_tablero 6 4
   \<and> notacion_a_posicion ''E0'' = Inr (8, 4) \<and> \<not> dentro_tablero 8 4
   \<and> (\<exists>e. notacion_a_posicion ''i2'' = Inl e) \<and> (\<exists>e. notacion_a_posicion ''ex'' = Inl e)"
  using notacion_a_posicion_falla_sii [of "''e2''", THEN conjunct2, rule_format, of 4 2]
    notacion_a_posicion_falla_sii [of "''E0''", THEN conjunct2, rule_format, of 4 0]
    notacion_a_posicion_falla_sii [of "''i2''", THEN conjunct1]
    notacion_a_posicion_falla_sii [of "''ex''", THEN conjunct1]
  by (simp add: COLUMNAS_def lower_def)

section \<open>The driver\<close>

text \<open>
  Claim C6. Asked to promote to a pawn (\<open>P\<close>) or a king (\<open>R\<close>), \<open>mover\<close> returns at once,
  whatever the move text and the state: the value returned is Python's \<open>None\<close> (never
  \<open>True\<close>), no move is built or executed, and the agent, with its board and its
  registry, is as it was.
\<close>

theorem mover_rechaza_promocion_a_peon_o_rey:
  "mover self cadena ''P'' = (Inr None, self) \<and> mover self cadena ''R'' = (Inr None, self)"
  by (simp add: mover_def)

section \<open>The occupants of a board\<close>

lemma piezas_en_tablero_iff:
  "x \<in> piezas_en_tablero t \<longleftrightarrow>
     x \<noteq> ''...'' \<and> (\<exists>i j. 0 \<le> i \<and> i < 8 \<and> 0 \<le> j \<and> j < 8 \<and> t i j = x)"
proof -
  have r: "set [0..7] = {i::int. 0 \<le> i \<and> i < 8}" by auto
  show ?thesis
    unfolding piezas_en_tablero_def set_filter set_concat set_map r by fastforce
qed

lemma poner_apply: "poner t f c v i j = (if i = f \<and> j = c then v else t i j)"
  by (simp add: poner_def)

lemma tablero_vacio_apply: "tablero_vacio i j = ''...''"
  by (simp add: tablero_vacio_def)

lemma piezas_en_tablero_vacio: "piezas_en_tablero tablero_vacio = {}"
  by (auto simp: piezas_en_tablero_iff tablero_vacio_def)

lemma piezas_en_tablero_poner:
  assumes "dentro_tablero f c" "t f c = ''...''" "v \<noteq> ''...''"
  shows "piezas_en_tablero (poner t f c v) = insert v (piezas_en_tablero t)"
proof (rule set_eqI)
  fix x
  show "x \<in> piezas_en_tablero (poner t f c v) \<longleftrightarrow> x \<in> insert v (piezas_en_tablero t)"
  proof
    assume "x \<in> piezas_en_tablero (poner t f c v)"
    then obtain i j where x: "x \<noteq> ''...''" "0 \<le> i" "i < 8" "0 \<le> j" "j < 8" "poner t f c v i j = x"
      unfolding piezas_en_tablero_iff by blast
    show "x \<in> insert v (piezas_en_tablero t)"
    proof (cases "i = f \<and> j = c")
      case True
      with x show ?thesis by (simp add: poner_def)
    next
      case False
      with x have "t i j = x" by (auto simp: poner_def)
      with x show ?thesis by (auto simp: piezas_en_tablero_iff)
    qed
  next
    assume "x \<in> insert v (piezas_en_tablero t)"
    then consider "x = v" | "x \<in> piezas_en_tablero t" by blast
    then show "x \<in> piezas_en_tablero (poner t f c v)"
    proof cases
      case 1
      from assms have "0 \<le> f \<and> f < 8 \<and> 0 \<le> c \<and> c < 8 \<and> poner t f c v f c = v"
        by (simp add: dentro_tablero_def poner_def)
      with 1 assms(3) show ?thesis unfolding piezas_en_tablero_iff by blast
    next
      case 2
      then obtain i j where x: "x \<noteq> ''...''" "0 \<le> i" "i < 8" "0 \<le> j" "j < 8" "t i j = x"
        unfolding piezas_en_tablero_iff by blast
      with assms(2) have "\<not> (i = f \<and> j = c)" by auto
      then have "poner t f c v i j = t i j" by (auto simp: poner_def)
      with x show ?thesis unfolding piezas_en_tablero_iff by blast
    qed
  qed
qed

lemma piezas_en_tablero_enroque:
  "piezas_en_tablero tablero_enroque = {''BR1'', ''BT2'', ''BT1'', ''NR1'', ''NT2'', ''NT1''}"
  unfolding tablero_enroque_def
  by (simp add: piezas_en_tablero_poner piezas_en_tablero_vacio dentro_tablero_def
      poner_apply tablero_vacio_apply insert_commute)

section \<open>The executor on the test positions\<close>

lemmas notacion_eval = notacion_a_posicion_def car_def COLUMNAS_def lower_def int_de_def

lemma escribir_poner: "dentro_tablero f c \<Longrightarrow> escribir t f c v = Inr (poner t f c v)"
  by (simp add: escribir_dentro poner_def)

lemma en_tablero_I:
  "dentro_tablero i j \<Longrightarrow> t i j = x \<Longrightarrow> x \<noteq> ''...'' \<Longrightarrow> x \<in> piezas_en_tablero t"
  unfolding piezas_en_tablero_iff dentro_tablero_def by blast

lemmas celda_eval = leer_dentro escribir_poner dentro_tablero_def poner_apply tablero_vacio_apply

text \<open>
  Claim C1 fails on the code: the branch \<open>ENROQUE\<close> of \<open>ejecutar_movimiento\<close> is
  \<open>pass\<close>. On the castling test's own board, with king and rook on their home squares
  and unmoved, executing \<open>O-O\<close> returns the board as it was: the king is still on e1
  and the rook on h1, f1 and g1 are empty, and neither piece is marked as moved. The
  test that follows in \<open>piezas.py\<close> expects both to be marked.
\<close>

theorem enroque_no_mueve:
  "ejecutar_movimiento enroque_corto tablero_enroque gestor_enroque
     = (Inr tablero_enroque, gestor_enroque)
   \<and> tablero_enroque 7 4 = ''BR1'' \<and> tablero_enroque 7 7 = ''BT2''
   \<and> tablero_enroque 7 6 = ''...'' \<and> tablero_enroque 7 5 = ''...''
   \<and> map_option movida (get_pieza gestor_enroque ''BR1'') = Some False
   \<and> map_option movida (get_pieza gestor_enroque ''BT2'') = Some False"
proof -
  have d: "notacion_a_posicion ''e1'' = Inr (7, 4)" by (simp add: notacion_eval)
  have h: "notacion_a_posicion ''g1'' = Inr (7, 6)" by (simp add: notacion_eval)
  have l1: "leer tablero_enroque 7 4 = Inr ''BR1''"
    by (simp add: celda_eval tablero_enroque_def)
  have l2: "leer tablero_enroque 7 6 = Inr ''...''"
    by (simp add: celda_eval tablero_enroque_def)
  have s: "sincronizar_con_tablero gestor_enroque tablero_enroque = gestor_enroque"
    by (simp add: sincronizar_con_tablero_def piezas_en_tablero_enroque gestor_enroque_def)
  have e: "ejecutar_movimiento enroque_corto tablero_enroque gestor_enroque
     = (Inr tablero_enroque, gestor_enroque)"
    by (simp add: ejecutar_movimiento_def enroque_corto_def d h l1 l2 eliminar_capturada_def s)
  have c: "tablero_enroque 7 4 = ''BR1'' \<and> tablero_enroque 7 7 = ''BT2''
   \<and> tablero_enroque 7 6 = ''...'' \<and> tablero_enroque 7 5 = ''...''"
    by (simp add: tablero_enroque_def poner_apply tablero_vacio_apply)
  have m: "map_option movida (get_pieza gestor_enroque ''BR1'') = Some False
   \<and> map_option movida (get_pieza gestor_enroque ''BT2'') = Some False"
    by (simp add: get_pieza_def gestor_enroque_def crear_pieza_def)
  from e c m show ?thesis by blast
qed

text \<open>
  Claim C2 fails on the code: \<open>ejecutar_movimiento\<close> has no branch for \<open>EN_PASSANT\<close>
  and executes it as a normal move. The capturing pawn goes from e5 to d6 and e5 is
  emptied, but the captured pawn \<open>NP4\<close> is still on d5 and still in the registry.
\<close>

theorem al_paso_no_captura:
  "ejecutar_movimiento captura_al_paso tablero_al_paso gestor_al_paso
     = (Inr (poner (poner tablero_al_paso 2 3 ''BP5'') 3 4 ''...''), gestor_al_paso)
   \<and> poner (poner tablero_al_paso 2 3 ''BP5'') 3 4 ''...'' 3 3 = ''NP4''
   \<and> get_pieza gestor_al_paso ''NP4'' \<noteq> None"
proof -
  let ?t = "poner (poner tablero_al_paso 2 3 ''BP5'') 3 4 ''...''"
  have d: "notacion_a_posicion ''e5'' = Inr (3, 4)" by (simp add: notacion_eval)
  have h: "notacion_a_posicion ''d6'' = Inr (2, 3)" by (simp add: notacion_eval)
  have l1: "leer tablero_al_paso 3 4 = Inr ''BP5''"
    by (simp add: celda_eval tablero_al_paso_def)
  have l2: "leer tablero_al_paso 2 3 = Inr ''...''"
    by (simp add: celda_eval tablero_al_paso_def)
  have e1: "escribir tablero_al_paso 2 3 ''BP5'' = Inr (poner tablero_al_paso 2 3 ''BP5'')"
    by (simp add: celda_eval)
  have e2: "escribir (poner tablero_al_paso 2 3 ''BP5'') 3 4 ''...'' = Inr ?t"
    by (simp add: celda_eval)
  have n: "ejecutar_normal gestor_al_paso tablero_al_paso ''BP5''
             (get_pieza gestor_al_paso ''BP5'') 3 4 2 3 = (Inr ?t, gestor_al_paso)"
    by (simp add: ejecutar_normal_def e1 e2) (simp add: get_pieza_def gestor_al_paso_def crear_pieza_def)
  have p: "''BP5'' \<in> piezas_en_tablero ?t" "''BR1'' \<in> piezas_en_tablero ?t"
    "''NP4'' \<in> piezas_en_tablero ?t" "''NR1'' \<in> piezas_en_tablero ?t"
    by (rule en_tablero_I [of 2 3], simp_all add: celda_eval tablero_al_paso_def,
        rule en_tablero_I [of 7 4], simp_all add: celda_eval tablero_al_paso_def,
        rule en_tablero_I [of 3 3], simp_all add: celda_eval tablero_al_paso_def,
        rule en_tablero_I [of 0 4], simp_all add: celda_eval tablero_al_paso_def)
  have s: "sincronizar_con_tablero gestor_al_paso ?t = gestor_al_paso"
    using p by (simp add: sincronizar_con_tablero_def gestor_al_paso_def)
  have e: "ejecutar_movimiento captura_al_paso tablero_al_paso gestor_al_paso
     = (Inr ?t, gestor_al_paso)"
    by (simp add: ejecutar_movimiento_def captura_al_paso_def d h l1 l2 eliminar_capturada_def n s)
  have c: "?t 3 3 = ''NP4''"
    by (simp add: tablero_al_paso_def poner_apply tablero_vacio_apply)
  have m: "get_pieza gestor_al_paso ''NP4'' \<noteq> None"
    by (simp add: get_pieza_def gestor_al_paso_def)
  from e c m show ?thesis by blast
qed

section \<open>Castling\<close>

declare verificar_enroque_desde.simps [simp del]

lemma verificar_enroque_desde_derecha:
  "0 \<le> fila \<and> fila < 8 \<and> ci < ct \<and> 0 \<le> ca \<and> ca \<le> ct \<and> ct < 8 \<Longrightarrow>
   verificar_enroque_desde t fila ci ct ca = Inr (\<forall>c. ca \<le> c \<and> c < ct \<longrightarrow> t fila c = ''...'')"
proof (induction t fila ci ct ca rule: verificar_enroque_desde.induct)
  case (1 t fila ci ct ca)
  show ?case
  proof (cases "ca = ct")
    case True
    then show ?thesis by (subst verificar_enroque_desde.simps) auto
  next
    case False
    with "1.prems" have l: "leer t fila ca = Inr (t fila ca)"
      by (intro leer_dentro) (simp add: dentro_tablero_def)
    show ?thesis
    proof (cases "t fila ca = ''...''")
      case vac: True
      from False "1.prems" have "0 \<le> fila \<and> fila < 8 \<and> ci < ct \<and> 0 \<le> ca + 1 \<and> ca + 1 \<le> ct \<and> ct < 8"
        by simp
      with "1.IH" [OF False l] vac "1.prems"
      have ih: "verificar_enroque_desde t fila ci ct (ca + 1)
                  = Inr (\<forall>c. ca + 1 \<le> c \<and> c < ct \<longrightarrow> t fila c = ''...'')"
        by simp
      have "(\<forall>c. ca \<le> c \<and> c < ct \<longrightarrow> t fila c = ''...'')
            \<longleftrightarrow> (\<forall>c. ca + 1 \<le> c \<and> c < ct \<longrightarrow> t fila c = ''...'')"
      proof (intro iffI allI impI)
        fix c assume a: "\<forall>c. ca + 1 \<le> c \<and> c < ct \<longrightarrow> t fila c = ''...''" "ca \<le> c \<and> c < ct"
        show "t fila c = ''...''"
        proof (cases "c = ca")
          case True with vac show ?thesis by simp
        next
          case False with a show ?thesis by simp
        qed
      qed simp
      with ih vac False l "1.prems" show ?thesis
        by (subst verificar_enroque_desde.simps) simp
    next
      case occ: False
      with False "1.prems" have "\<not> (\<forall>c. ca \<le> c \<and> c < ct \<longrightarrow> t fila c = ''...'')"
        by (intro notI) force
      with occ False l show ?thesis
        by (subst verificar_enroque_desde.simps) simp
    qed
  qed
qed

lemma verificar_enroque_desde_izquierda:
  "0 \<le> fila \<and> fila < 8 \<and> ct < ci \<and> 0 \<le> ct \<and> ct \<le> ca \<and> ca < 8 \<Longrightarrow>
   verificar_enroque_desde t fila ci ct ca = Inr (\<forall>c. ct < c \<and> c \<le> ca \<longrightarrow> t fila c = ''...'')"
proof (induction t fila ci ct ca rule: verificar_enroque_desde.induct)
  case (1 t fila ci ct ca)
  show ?case
  proof (cases "ca = ct")
    case True
    then show ?thesis by (subst verificar_enroque_desde.simps) auto
  next
    case False
    with "1.prems" have l: "leer t fila ca = Inr (t fila ca)"
      by (intro leer_dentro) (simp add: dentro_tablero_def)
    show ?thesis
    proof (cases "t fila ca = ''...''")
      case vac: True
      from False "1.prems" have "0 \<le> fila \<and> fila < 8 \<and> ct < ci \<and> 0 \<le> ct \<and> ct \<le> ca - 1 \<and> ca - 1 < 8"
        by simp
      with "1.IH" [OF False l] vac "1.prems"
      have ih: "verificar_enroque_desde t fila ci ct (ca - 1)
                  = Inr (\<forall>c. ct < c \<and> c \<le> ca - 1 \<longrightarrow> t fila c = ''...'')"
        by simp
      have "(\<forall>c. ct < c \<and> c \<le> ca \<longrightarrow> t fila c = ''...'')
            \<longleftrightarrow> (\<forall>c. ct < c \<and> c \<le> ca - 1 \<longrightarrow> t fila c = ''...'')"
      proof (intro iffI allI impI)
        fix c assume a: "\<forall>c. ct < c \<and> c \<le> ca - 1 \<longrightarrow> t fila c = ''...''" "ct < c \<and> c \<le> ca"
        show "t fila c = ''...''"
        proof (cases "c = ca")
          case True with vac show ?thesis by simp
        next
          case False with a show ?thesis by simp
        qed
      qed simp
      with ih vac False l "1.prems" show ?thesis
        by (subst verificar_enroque_desde.simps) simp
    next
      case occ: False
      with False "1.prems" have "\<not> (\<forall>c. ct < c \<and> c \<le> ca \<longrightarrow> t fila c = ''...'')"
        by (intro notI) force
      with occ False l show ?thesis
        by (subst verificar_enroque_desde.simps) simp
    qed
  qed
qed

lemma verificar_enroque_entre:
  assumes "0 \<le> fila" "fila < 8" "0 \<le> ci" "ci < 8" "0 \<le> ct" "ct < 8" "ci \<noteq> ct"
  shows "verificar_enroque t fila ci ct
           = Inr (\<forall>c. min ci ct < c \<and> c < max ci ct \<longrightarrow> t fila c = ''...'')"
proof (cases "ci < ct")
  case True
  with assms have "verificar_enroque_desde t fila ci ct (ci + 1)
      = Inr (\<forall>c. ci + 1 \<le> c \<and> c < ct \<longrightarrow> t fila c = ''...'')"
    by (intro verificar_enroque_desde_derecha) simp
  moreover have "(\<forall>c. ci + 1 \<le> c \<and> c < ct \<longrightarrow> t fila c = ''...'')
      \<longleftrightarrow> (\<forall>c. min ci ct < c \<and> c < max ci ct \<longrightarrow> t fila c = ''...'')"
    using True by auto
  ultimately show ?thesis using True by (simp add: verificar_enroque_def)
next
  case False
  with assms have lt: "ct < ci" by simp
  with assms have "verificar_enroque_desde t fila ci ct (ci - 1)
      = Inr (\<forall>c. ct < c \<and> c \<le> ci - 1 \<longrightarrow> t fila c = ''...'')"
    by (intro verificar_enroque_desde_izquierda) simp
  moreover have "(\<forall>c. ct < c \<and> c \<le> ci - 1 \<longrightarrow> t fila c = ''...'')
      \<longleftrightarrow> (\<forall>c. min ci ct < c \<and> c < max ci ct \<longrightarrow> t fila c = ''...'')"
    using lt by auto
  ultimately show ?thesis using lt by (simp add: verificar_enroque_def)
qed

lemma entre_4_7: "(\<forall>c::int. min 4 7 < c \<and> c < max 4 7 \<longrightarrow> P c) \<longleftrightarrow> P 5 \<and> P 6"
proof -
  have "\<And>c::int. 4 < c \<and> c < 7 \<longleftrightarrow> c = 5 \<or> c = 6" by auto
  then show ?thesis by auto
qed

lemma entre_4_0: "(\<forall>c::int. min 4 0 < c \<and> c < max 4 0 \<longrightarrow> P c) \<longleftrightarrow> P 1 \<and> P 2 \<and> P 3"
proof -
  have "\<And>c::int. 0 < c \<and> c < 4 \<longleftrightarrow> c = 1 \<or> c = 2 \<or> c = 3" by auto
  then show ?thesis by auto
qed

lemma posicion_a_notacion_eval:
  "posicion_a_notacion 7 4 = Inr ''e1''" "posicion_a_notacion 7 6 = Inr ''g1''"
  "posicion_a_notacion 7 2 = Inr ''c1''" "posicion_a_notacion 0 4 = Inr ''e8''"
  "posicion_a_notacion 0 6 = Inr ''g8''" "posicion_a_notacion 0 2 = Inr ''c8''"
  by (simp_all add: posicion_a_notacion_def elem_def COLUMNAS_def str_def)

lemma enroque_lado_corto:
  assumes "fila_rey = 7 \<or> fila_rey = 0"
  shows "enroque_lado piezas t fila_rey torre_id 7 6 ''O-O'' =
     Inr (if t fila_rey 7 = torre_id
             \<and> (\<exists>torre. get_pieza piezas torre_id = Some torre \<and> \<not> movida torre)
             \<and> t fila_rey 5 = ''...'' \<and> t fila_rey 6 = ''...''
          then [\<lparr> desde = (if fila_rey = 7 then ''e1'' else ''e8''),
                  hasta = (if fila_rey = 7 then ''g1'' else ''g8''),
                  tipo = ENROQUE, info_adicional = Some ''O-O'' \<rparr>]
          else [])"
proof -
  have v: "\<And>f. f = 7 \<or> f = 0 \<Longrightarrow> verificar_enroque t f 4 7
      = Inr (t f 5 = ''...'' \<and> t f 6 = ''...'')"
    subgoal for f using verificar_enroque_entre [of f 4 7 t] by (auto simp only: entre_4_7) done
  have l: "\<And>f. f = 7 \<or> f = 0 \<Longrightarrow> leer t f 7 = Inr (t f 7)"
    by (intro leer_dentro) (auto simp: dentro_tablero_def)
  from assms show ?thesis
    by (auto simp: enroque_lado_def v l posicion_a_notacion_eval split: option.splits)
qed

lemma enroque_lado_largo:
  assumes "fila_rey = 7 \<or> fila_rey = 0"
  shows "enroque_lado piezas t fila_rey torre_id 0 2 ''O-O-O'' =
     Inr (if t fila_rey 0 = torre_id
             \<and> (\<exists>torre. get_pieza piezas torre_id = Some torre \<and> \<not> movida torre)
             \<and> t fila_rey 1 = ''...'' \<and> t fila_rey 2 = ''...'' \<and> t fila_rey 3 = ''...''
          then [\<lparr> desde = (if fila_rey = 7 then ''e1'' else ''e8''),
                  hasta = (if fila_rey = 7 then ''c1'' else ''c8''),
                  tipo = ENROQUE, info_adicional = Some ''O-O-O'' \<rparr>]
          else [])"
proof -
  have v: "\<And>f. f = 7 \<or> f = 0 \<Longrightarrow> verificar_enroque t f 4 0
      = Inr (t f 1 = ''...'' \<and> t f 2 = ''...'' \<and> t f 3 = ''...'')"
    subgoal for f using verificar_enroque_entre [of f 4 0 t] by (auto simp only: entre_4_0) done
  have l: "\<And>f. f = 7 \<or> f = 0 \<Longrightarrow> leer t f 0 = Inr (t f 0)"
    by (intro leer_dentro) (auto simp: dentro_tablero_def)
  from assms show ?thesis
    by (auto simp: enroque_lado_def v l posicion_a_notacion_eval split: option.splits)
qed

text \<open>
  Claim C5 as stated does not hold: with the rook \<open>BT2\<close> on its corner h1, the path check
  for the short side returns \<open>True\<close>, and the unmoved white king gets both castling
  candidates on the castling test's board.
\<close>

theorem enroque_con_torre_en_esquina_counterexample:
  "tablero_enroque 7 7 = ''BT2'' \<and> verificar_enroque tablero_enroque 7 4 7 = Inr True
   \<and> Rey_obtener_movimientos_especiales (crear_pieza Rey ''B'' 1) gestor_enroque (7, 4)
        tablero_enroque
      = Inr [\<lparr> desde = ''e1'', hasta = ''g1'', tipo = ENROQUE, info_adicional = Some ''O-O'' \<rparr>,
             \<lparr> desde = ''e1'', hasta = ''c1'', tipo = ENROQUE,
               info_adicional = Some ''O-O-O'' \<rparr>]"
proof -
  have c: "tablero_enroque 7 7 = ''BT2''" "tablero_enroque 7 0 = ''BT1''"
    "tablero_enroque 7 5 = ''...''" "tablero_enroque 7 6 = ''...''"
    "tablero_enroque 7 1 = ''...''" "tablero_enroque 7 2 = ''...''"
    "tablero_enroque 7 3 = ''...''"
    by (simp_all add: tablero_enroque_def poner_apply tablero_vacio_apply)
  have v: "verificar_enroque tablero_enroque 7 4 7 = Inr True"
    using verificar_enroque_entre [of 7 4 7 tablero_enroque] c by (simp only: entre_4_7) simp
  have g: "get_pieza gestor_enroque ''BT2'' = Some (crear_pieza Torre ''B'' 2)"
    "get_pieza gestor_enroque ''BT1'' = Some (crear_pieza Torre ''B'' 1)"
    by (simp_all add: get_pieza_def gestor_enroque_def)
  have m: "\<not> movida (crear_pieza k col n)" for k col n
    by (simp add: crear_pieza_def)
  have k: "color (crear_pieza k col n) = col" for k col n
    by (simp add: crear_pieza_def)
  have r: "Rey_obtener_movimientos_especiales (crear_pieza Rey ''B'' 1) gestor_enroque (7, 4)
        tablero_enroque
      = Inr [\<lparr> desde = ''e1'', hasta = ''g1'', tipo = ENROQUE, info_adicional = Some ''O-O'' \<rparr>,
             \<lparr> desde = ''e1'', hasta = ''c1'', tipo = ENROQUE,
               info_adicional = Some ''O-O-O'' \<rparr>]"
    by (simp add: Rey_obtener_movimientos_especiales_def m k enroque_lado_corto
        enroque_lado_largo c g)
  from c(1) v r show ?thesis by blast
qed

text \<open>
  Claim C5, amended. The loop of \<open>_verificar_enroque\<close> runs while \<open>col_actual\<close> differs
  from the rook's column, so it scans the squares strictly between the king's column and
  the rook's column and never the rook's own square: for two different columns of the
  board it returns \<open>True\<close> exactly when all squares strictly between them are empty.
  Hence a king that has moved gets no castling candidate, and an unmoved king gets the
  candidate of a side exactly when the expected rook id is on that corner of the king's
  home row, that rook is registered and unmoved, and the squares strictly between column 4
  and the corner are empty.
\<close>

theorem enroque_camino_estrictamente_entre:
  "(0 \<le> fila \<and> fila < 8 \<and> 0 \<le> ci \<and> ci < 8 \<and> 0 \<le> ct \<and> ct < 8 \<and> ci \<noteq> ct \<longrightarrow>
      verificar_enroque t fila ci ct
        = Inr (\<forall>c. min ci ct < c \<and> c < max ci ct \<longrightarrow> t fila c = ''...''))
   \<and> (movida self \<longrightarrow> Rey_obtener_movimientos_especiales self piezas pos t = Inr [])
   \<and> (\<not> movida self \<longrightarrow>
        Rey_obtener_movimientos_especiales self piezas pos t =
          (let fila_rey = (if color self = ''B'' then 7 else 0);
               torre_corto_id = (if color self = ''B'' then ''BT2'' else ''NT2'');
               torre_largo_id = (if color self = ''B'' then ''BT1'' else ''NT1'')
           in Inr ((if t fila_rey 7 = torre_corto_id
                      \<and> (\<exists>torre. get_pieza piezas torre_corto_id = Some torre \<and> \<not> movida torre)
                      \<and> t fila_rey 5 = ''...'' \<and> t fila_rey 6 = ''...''
                    then [\<lparr> desde = (if fila_rey = 7 then ''e1'' else ''e8''),
                            hasta = (if fila_rey = 7 then ''g1'' else ''g8''),
                            tipo = ENROQUE, info_adicional = Some ''O-O'' \<rparr>]
                    else [])
                 @ (if t fila_rey 0 = torre_largo_id
                      \<and> (\<exists>torre. get_pieza piezas torre_largo_id = Some torre \<and> \<not> movida torre)
                      \<and> t fila_rey 1 = ''...'' \<and> t fila_rey 2 = ''...'' \<and> t fila_rey 3 = ''...''
                    then [\<lparr> desde = (if fila_rey = 7 then ''e1'' else ''e8''),
                            hasta = (if fila_rey = 7 then ''c1'' else ''c8''),
                            tipo = ENROQUE, info_adicional = Some ''O-O-O'' \<rparr>]
                    else []))))"
proof (intro conjI impI)
  assume "0 \<le> fila \<and> fila < 8 \<and> 0 \<le> ci \<and> ci < 8 \<and> 0 \<le> ct \<and> ct < 8 \<and> ci \<noteq> ct"
  then show "verificar_enroque t fila ci ct
        = Inr (\<forall>c. min ci ct < c \<and> c < max ci ct \<longrightarrow> t fila c = ''...'')"
    by (intro verificar_enroque_entre) simp_all
next
  assume "movida self"
  then show "Rey_obtener_movimientos_especiales self piezas pos t = Inr []"
    by (simp add: Rey_obtener_movimientos_especiales_def)
next
  assume n: "\<not> movida self"
  have f: "(if color self = ''B'' then 7 else 0) = (7::int) \<or> (if color self = ''B'' then 7 else 0) = (0::int)"
    by simp
  show "Rey_obtener_movimientos_especiales self piezas pos t =
          (let fila_rey = (if color self = ''B'' then 7 else 0);
               torre_corto_id = (if color self = ''B'' then ''BT2'' else ''NT2'');
               torre_largo_id = (if color self = ''B'' then ''BT1'' else ''NT1'')
           in Inr ((if t fila_rey 7 = torre_corto_id
                      \<and> (\<exists>torre. get_pieza piezas torre_corto_id = Some torre \<and> \<not> movida torre)
                      \<and> t fila_rey 5 = ''...'' \<and> t fila_rey 6 = ''...''
                    then [\<lparr> desde = (if fila_rey = 7 then ''e1'' else ''e8''),
                            hasta = (if fila_rey = 7 then ''g1'' else ''g8''),
                            tipo = ENROQUE, info_adicional = Some ''O-O'' \<rparr>]
                    else [])
                 @ (if t fila_rey 0 = torre_largo_id
                      \<and> (\<exists>torre. get_pieza piezas torre_largo_id = Some torre \<and> \<not> movida torre)
                      \<and> t fila_rey 1 = ''...'' \<and> t fila_rey 2 = ''...'' \<and> t fila_rey 3 = ''...''
                    then [\<lparr> desde = (if fila_rey = 7 then ''e1'' else ''e8''),
                            hasta = (if fila_rey = 7 then ''c1'' else ''c8''),
                            tipo = ENROQUE, info_adicional = Some ''O-O-O'' \<rparr>]
                    else [])))"
    unfolding Rey_obtener_movimientos_especiales_def Let_def
    by (simp only: n if_False enroque_lado_corto [OF f] enroque_lado_largo [OF f] sum.case)
qed

theorem enroque_camino_estrictamente_entre_witness:
  "verificar_enroque tablero_enroque 0 4 7 = Inr True
   \<and> verificar_enroque (poner tablero_enroque 0 1 ''NC1'') 0 4 0 = Inr False
   \<and> Rey_obtener_movimientos_especiales ((crear_pieza Rey ''N'' 1)\<lparr>movida := True\<rparr>)
        gestor_enroque (0, 4) tablero_enroque = Inr []
   \<and> Rey_obtener_movimientos_especiales (crear_pieza Rey ''N'' 1) gestor_enroque (0, 4)
        tablero_enroque
      = Inr [\<lparr> desde = ''e8'', hasta = ''g8'', tipo = ENROQUE, info_adicional = Some ''O-O'' \<rparr>,
             \<lparr> desde = ''e8'', hasta = ''c8'', tipo = ENROQUE,
               info_adicional = Some ''O-O-O'' \<rparr>]"
proof -
  have c: "tablero_enroque 0 7 = ''NT2''" "tablero_enroque 0 0 = ''NT1''"
    "tablero_enroque 0 5 = ''...''" "tablero_enroque 0 6 = ''...''"
    "tablero_enroque 0 1 = ''...''" "tablero_enroque 0 2 = ''...''"
    "tablero_enroque 0 3 = ''...''"
    by (simp_all add: tablero_enroque_def poner_apply tablero_vacio_apply)
  have g: "get_pieza gestor_enroque ''NT2'' = Some (crear_pieza Torre ''N'' 2)"
    "get_pieza gestor_enroque ''NT1'' = Some (crear_pieza Torre ''N'' 1)"
    by (simp_all add: get_pieza_def gestor_enroque_def)
  have m: "\<not> movida (crear_pieza k col n)" "color (crear_pieza k col n) = col" for k col n
    by (simp_all add: crear_pieza_def)
  note th = enroque_camino_estrictamente_entre
  have 1: "verificar_enroque tablero_enroque 0 4 7 = Inr True"
    using th [of 0 4 7 tablero_enroque, THEN conjunct1] c by (simp only: entre_4_7) simp
  have 2: "verificar_enroque (poner tablero_enroque 0 1 ''NC1'') 0 4 0 = Inr False"
    using th [of 0 4 0 "poner tablero_enroque 0 1 ''NC1''", THEN conjunct1]
    by (simp only: entre_4_0) (simp add: poner_apply)
  have 3: "Rey_obtener_movimientos_especiales ((crear_pieza Rey ''N'' 1)\<lparr>movida := True\<rparr>)
        gestor_enroque (0, 4) tablero_enroque = Inr []"
    using th [of _ _ _ _ "(crear_pieza Rey ''N'' 1)\<lparr>movida := True\<rparr>" gestor_enroque "(0, 4)",
        THEN conjunct2, THEN conjunct1]
    by simp
  have 4: "Rey_obtener_movimientos_especiales (crear_pieza Rey ''N'' 1) gestor_enroque (0, 4)
        tablero_enroque
      = Inr [\<lparr> desde = ''e8'', hasta = ''g8'', tipo = ENROQUE, info_adicional = Some ''O-O'' \<rparr>,
             \<lparr> desde = ''e8'', hasta = ''c8'', tipo = ENROQUE,
               info_adicional = Some ''O-O-O'' \<rparr>]"
    using th [of _ _ _ tablero_enroque "crear_pieza Rey ''N'' 1" gestor_enroque "(0, 4)",
        THEN conjunct2, THEN conjunct2]
    by (simp add: m c g)
  from 1 2 3 4 show ?thesis by blast
qed

section \<open>Notation of the squares of the board\<close>

declare str_nat.simps [simp del]

lemma columna_cases:
  "0 \<le> c \<Longrightarrow> c < 8 \<Longrightarrow> c = 0 \<or> c = 1 \<or> c = 2 \<or> c = 3 \<or> c = 4 \<or> c = 5 \<or> c = 6 \<or> c = (7::int)"
  by arith

lemma posicion_a_notacion_dentro:
  assumes "dentro_tablero f c"
  shows "posicion_a_notacion f c = Inr [COLUMNAS ! nat c, ''0123456789'' ! nat (8 - f)]"
proof -
  from assms have c: "0 \<le> c" "c < 8" and f: "0 \<le> f" "f < 8"
    by (simp_all add: dentro_tablero_def)
  have "length COLUMNAS = 8" by (simp add: COLUMNAS_def)
  with c have e: "elem COLUMNAS c = Inr (COLUMNAS ! nat c)" by (simp add: elem_def)
  from f have "nat (8 - f) < 10" by simp
  then have "str_nat (nat (8 - f)) = [''0123456789'' ! nat (8 - f)]"
    by (subst str_nat.simps) simp
  with f have s: "str (8 - f) = [''0123456789'' ! nat (8 - f)]" by (simp add: str_def)
  show ?thesis by (simp add: posicion_a_notacion_def e s)
qed

lemma lower_columnas:
  "lower CHR ''a'' = CHR ''a''" "lower CHR ''b'' = CHR ''b''" "lower CHR ''c'' = CHR ''c''"
  "lower CHR ''d'' = CHR ''d''" "lower CHR ''e'' = CHR ''e''" "lower CHR ''f'' = CHR ''f''"
  "lower CHR ''g'' = CHR ''g''" "lower CHR ''h'' = CHR ''h''"
  by (simp_all add: lower_def)

lemma notacion_a_posicion_de_dos:
  assumes "0 \<le> col" "col < 8" "0 \<le> d" "d \<le> 9"
  shows "notacion_a_posicion [COLUMNAS ! nat col, ''0123456789'' ! nat d] = Inr (8 - d, col)"
proof -
  have c: "index_de COLUMNAS (COLUMNAS ! nat col) = Inr (int (nat col))"
  proof (rule index_de_nth)
    show "distinct COLUMNAS" by (simp add: COLUMNAS_def)
    have "length COLUMNAS = 8" by (simp add: COLUMNAS_def)
    with assms show "nat col < length COLUMNAS" by linarith
  qed
  have d: "index_de ''0123456789'' (''0123456789'' ! nat d) = Inr (int (nat d))"
  proof (rule index_de_nth)
    show "distinct ''0123456789''" by simp
    have "length ''0123456789'' = 10" by simp
    with assms show "nat d < length ''0123456789''" by linarith
  qed
  have l: "lower (COLUMNAS ! nat col) = COLUMNAS ! nat col"
    using columna_cases [OF assms(1,2)] by (elim disjE) (simp_all add: COLUMNAS_def lower_columnas)
  from assms c have c': "index_de COLUMNAS (lower (COLUMNAS ! nat col)) = Inr col"
    by (simp add: l)
  from assms d have d': "int_de (''0123456789'' ! nat d) = Inr d"
    by (simp only: int_de_def) simp
  show ?thesis
    by (simp add: notacion_a_posicion_def car_def c' d' del: index_de.simps)
qed

lemma notacion_ida_y_vuelta:
  assumes "dentro_tablero f c" "posicion_a_notacion f c = Inr n"
  shows "notacion_a_posicion n = Inr (f, c)"
proof -
  from assms(1) have b: "0 \<le> c" "c < 8" "0 \<le> 8 - f" "8 - f \<le> 9"
    by (simp_all add: dentro_tablero_def)
  from assms have "n = [COLUMNAS ! nat c, ''0123456789'' ! nat (8 - f)]"
    by (simp add: posicion_a_notacion_dentro)
  with notacion_a_posicion_de_dos [OF b] show ?thesis by simp
qed

lemma posicion_a_notacion_inyectiva:
  assumes "dentro_tablero f c" "dentro_tablero f' c'"
    "posicion_a_notacion f c = Inr n" "posicion_a_notacion f' c' = Inr n"
  shows "f = f' \<and> c = c'"
  using notacion_ida_y_vuelta [OF assms(1,3)] notacion_ida_y_vuelta [OF assms(2,4)] by simp

lemma posicion_a_notacion_total:
  "dentro_tablero f c \<Longrightarrow> \<exists>n. posicion_a_notacion f c = Inr n"
  by (simp add: posicion_a_notacion_dentro)

section \<open>The pawn\<close>

lemma car_0: "s \<noteq> [] \<Longrightarrow> car s 0 = Inr (hd s)"
  by (cases s) (simp_all add: car_def)

lemma Peon_capturas_paso:
  assumes "Peon_capturas self pn f c t (dc # dcs) movs = Inr r"
  shows "\<exists>movs'. Peon_capturas self pn f c t dcs movs' = Inr r \<and>
     (movs' = movs \<or>
      (dentro_tablero (f + direccion self) (c + dc) \<and>
       (\<exists>d. posicion_a_notacion (f + direccion self) (c + dc) = Inr d
          \<and> movs' = movs @ [pn @ '' '' @ d])))"
proof (cases "dentro_tablero (f + direccion self) (c + dc)")
  case False
  with assms show ?thesis by simp
next
  case True
  with assms show ?thesis
    by (simp add: leer_dentro split: if_splits sum.splits) blast+
qed

lemma Peon_capturas_sup:
  "Peon_capturas self pn f c t dcs movs = Inr r \<Longrightarrow> set movs \<subseteq> set r"
proof (induction dcs arbitrary: movs)
  case Nil
  then show ?case by simp
next
  case (Cons dc dcs)
  from Peon_capturas_paso [OF Cons.prems] obtain movs' where
    m: "Peon_capturas self pn f c t dcs movs' = Inr r"
    and s: "movs' = movs \<or>
      (dentro_tablero (f + direccion self) (c + dc) \<and>
       (\<exists>d. posicion_a_notacion (f + direccion self) (c + dc) = Inr d
          \<and> movs' = movs @ [pn @ '' '' @ d]))"
    by blast
  from s have "set movs \<subseteq> set movs'" by auto
  with Cons.IH [OF m] show ?case by blast
qed

lemma Peon_capturas_sub:
  "Peon_capturas self pn f c t dcs movs = Inr r \<Longrightarrow> m \<in> set r \<Longrightarrow>
   m \<in> set movs \<or>
   (\<exists>dc d. dc \<in> set dcs \<and> dentro_tablero (f + direccion self) (c + dc)
      \<and> posicion_a_notacion (f + direccion self) (c + dc) = Inr d \<and> m = pn @ '' '' @ d)"
proof (induction dcs arbitrary: movs)
  case Nil
  then show ?case by simp
next
  case (Cons dc dcs)
  from Peon_capturas_paso [OF Cons.prems(1)] obtain movs' where
    m: "Peon_capturas self pn f c t dcs movs' = Inr r"
    and s: "movs' = movs \<or>
      (dentro_tablero (f + direccion self) (c + dc) \<and>
       (\<exists>d. posicion_a_notacion (f + direccion self) (c + dc) = Inr d
          \<and> movs' = movs @ [pn @ '' '' @ d]))"
    by blast
  from Cons.IH [OF m Cons.prems(2)] consider "m \<in> set movs'"
    | dc' d where "dc' \<in> set dcs" "dentro_tablero (f + direccion self) (c + dc')"
        "posicion_a_notacion (f + direccion self) (c + dc') = Inr d" "m = pn @ '' '' @ d"
    by blast
  then show ?case
  proof cases
    case 1
    with s show ?thesis by auto
  next
    case 2
    then show ?thesis by auto
  qed
qed

lemma Peon_capturas_total:
  assumes "\<forall>i j. t i j \<noteq> []"
  shows "\<exists>r. Peon_capturas self pn f c t dcs movs = Inr r"
proof (induction dcs arbitrary: movs)
  case Nil
  show ?case by simp
next
  case (Cons dc dcs)
  show ?case
  proof (cases "dentro_tablero (f + direccion self) (c + dc)")
    case True
    from posicion_a_notacion_total [OF True] obtain d where
      d: "posicion_a_notacion (f + direccion self) (c + dc) = Inr d" ..
    from assms have "car (t (f + direccion self) (c + dc)) 0
        = Inr (hd (t (f + direccion self) (c + dc)))"
      by (intro car_0) simp
    with True d Cons.IH show ?thesis
      by (simp add: leer_dentro)
  next
    case False
    with Cons.IH show ?thesis by simp
  qed
qed

lemma Peon_avances_eq:
  assumes "dentro_tablero (f + direccion self) c"
    and "posicion_a_notacion (f + direccion self) c = Inr d1"
    and "dentro_tablero (f + 2 * direccion self) c \<Longrightarrow>
         posicion_a_notacion (f + 2 * direccion self) c = Inr d2"
  shows "Peon_avances self pn f c t =
     Inr (if t (f + direccion self) c \<noteq> ''...'' then []
          else if \<not> movida self \<and> f = fila_inicial self
                  \<and> dentro_tablero (f + 2 * direccion self) c
                  \<and> t (f + 2 * direccion self) c = ''...''
          then [pn @ '' '' @ d1, pn @ '' '' @ d2]
          else [pn @ '' '' @ d1])"
  using assms by (auto simp: Peon_avances_def leer_dentro)

lemma direccion_constructor:
  "direccion self = obtener_direccion_color (color self) \<Longrightarrow>
   direccion self = 1 \<or> direccion self = - 1"
  by (simp add: obtener_direccion_color_def split: if_splits)

text \<open>
  A move to a square of the pawn's own column is among the pawn's moves exactly when it
  is among its forward moves: the captures go to the two neighbouring columns.
\<close>

lemma Peon_obtener_hijos_columna:
  assumes "dentro_tablero f c" "dentro_tablero f' c"
    and "posicion_a_notacion f c = Inr pn" "posicion_a_notacion f' c = Inr d"
    and "Peon_avances self pn f c t = Inr av"
    and "Peon_obtener_hijos self (f, c) t = Inr movs"
  shows "pn @ '' '' @ d \<in> set movs \<longleftrightarrow> pn @ '' '' @ d \<in> set av"
proof -
  from assms(3,5,6) have r: "Peon_capturas self pn f c t [- 1, 1] av = Inr movs"
    by (simp add: Peon_obtener_hijos_def)
  show ?thesis
  proof
    assume "pn @ '' '' @ d \<in> set av"
    with Peon_capturas_sup [OF r] show "pn @ '' '' @ d \<in> set movs" by blast
  next
    assume m: "pn @ '' '' @ d \<in> set movs"
    show "pn @ '' '' @ d \<in> set av"
    proof (rule ccontr)
      assume "pn @ '' '' @ d \<notin> set av"
      with Peon_capturas_sub [OF r m] obtain dc d' where
        x: "dc \<in> set [- 1, 1]" "dentro_tablero (f + direccion self) (c + dc)"
           "posicion_a_notacion (f + direccion self) (c + dc) = Inr d'"
           "pn @ '' '' @ d = pn @ '' '' @ d'"
        by blast
      then have "d = d'" by simp
      with posicion_a_notacion_inyectiva [OF assms(2) x(2) assms(4)] x(3)
      have "c = c + dc" by simp
      with x(1) show False by auto
    qed
  qed
qed

text \<open>
  Claim C8, amended (the counterexample follows the evaluation lemmas below). Take a pawn
  as its constructor makes it (direction and starting row set from its colour), standing
  on its starting row on a board with no empty-string cell. \<open>obtener_hijos\<close> returns a
  list. If the pawn's \<open>movida\<close> flag is false and the squares one and two steps forward
  are both empty, the list holds both the one-square and the two-square advance. If the
  square one step forward is occupied, it holds neither.
\<close>

theorem Peon_avance_doble_sin_mover:
  assumes "direccion self = obtener_direccion_color (color self)"
    and "fila_inicial self = obtener_fila_inicial (color self)"
    and "0 \<le> c" "c < 8" and "\<forall>i j. t i j \<noteq> []"
  shows "\<exists>movs pn d1 d2.
      Peon_obtener_hijos self (fila_inicial self, c) t = Inr movs
      \<and> posicion_a_notacion (fila_inicial self) c = Inr pn
      \<and> posicion_a_notacion (fila_inicial self + direccion self) c = Inr d1
      \<and> posicion_a_notacion (fila_inicial self + 2 * direccion self) c = Inr d2
      \<and> (\<not> movida self \<and> t (fila_inicial self + direccion self) c = ''...''
           \<and> t (fila_inicial self + 2 * direccion self) c = ''...''
         \<longrightarrow> pn @ '' '' @ d1 \<in> set movs \<and> pn @ '' '' @ d2 \<in> set movs)
      \<and> (t (fila_inicial self + direccion self) c \<noteq> ''...''
         \<longrightarrow> pn @ '' '' @ d1 \<notin> set movs \<and> pn @ '' '' @ d2 \<notin> set movs)"
proof -
  let ?f = "fila_inicial self" and ?dir = "direccion self"
  from assms(1,2) have fd: "(?f = 6 \<and> ?dir = - 1) \<or> (?f = 1 \<and> ?dir = 1)"
    by (simp add: obtener_direccion_color_def obtener_fila_inicial_def)
  with assms(3,4) have b: "dentro_tablero ?f c" "dentro_tablero (?f + ?dir) c"
    "dentro_tablero (?f + 2 * ?dir) c"
    by (auto simp: dentro_tablero_def)
  from posicion_a_notacion_total [OF b(1)] obtain pn where
    n1: "posicion_a_notacion ?f c = Inr pn" ..
  from posicion_a_notacion_total [OF b(2)] obtain d1 where
    n2: "posicion_a_notacion (?f + ?dir) c = Inr d1" ..
  from posicion_a_notacion_total [OF b(3)] obtain d2 where
    n3: "posicion_a_notacion (?f + 2 * ?dir) c = Inr d2" ..
  note n = n1 n2 n3
  let ?av = "if t (?f + ?dir) c \<noteq> ''...'' then []
          else if \<not> movida self \<and> ?f = fila_inicial self
                  \<and> dentro_tablero (?f + 2 * ?dir) c
                  \<and> t (?f + 2 * ?dir) c = ''...''
          then [pn @ '' '' @ d1, pn @ '' '' @ d2]
          else [pn @ '' '' @ d1]"
  have av: "Peon_avances self pn ?f c t = Inr ?av"
    using b(2) n(2) n(3) by (rule Peon_avances_eq)
  obtain movs where c: "Peon_capturas self pn ?f c t [- 1, 1] ?av = Inr movs"
    using Peon_capturas_total [OF assms(5)] by blast
  with n(1) av have h: "Peon_obtener_hijos self (?f, c) t = Inr movs"
    by (simp add: Peon_obtener_hijos_def)
  have m1: "pn @ '' '' @ d1 \<in> set movs \<longleftrightarrow> pn @ '' '' @ d1 \<in> set ?av"
    using b(1) b(2) n(1) n(2) av h by (rule Peon_obtener_hijos_columna)
  have m2: "pn @ '' '' @ d2 \<in> set movs \<longleftrightarrow> pn @ '' '' @ d2 \<in> set ?av"
    using b(1) b(3) n(1) n(3) av h by (rule Peon_obtener_hijos_columna)
  show ?thesis
  proof (intro exI conjI impI)
    show "Peon_obtener_hijos self (?f, c) t = Inr movs" by (rule h)
    show "posicion_a_notacion ?f c = Inr pn" by (rule n1)
    show "posicion_a_notacion (?f + ?dir) c = Inr d1" by (rule n2)
    show "posicion_a_notacion (?f + 2 * ?dir) c = Inr d2" by (rule n3)
  next
    assume "\<not> movida self \<and> t (?f + ?dir) c = ''...'' \<and> t (?f + 2 * ?dir) c = ''...''"
    with b(3) m1 m2 show "pn @ '' '' @ d1 \<in> set movs" "pn @ '' '' @ d2 \<in> set movs"
      by simp_all
  next
    assume "t (?f + ?dir) c \<noteq> ''...''"
    with m1 m2 show "pn @ '' '' @ d1 \<notin> set movs" "pn @ '' '' @ d2 \<notin> set movs"
      by simp_all
  qed
qed

text \<open>
  Claim C10. For a pawn as its constructor makes it, on a square of the board from which
  the square two steps forward is on the board too: whenever \<open>obtener_hijos\<close> returns,
  the two-square advance is in the list exactly when the pawn's \<open>movida\<close> flag is
  false, the pawn is on its starting row, and the squares one and two steps forward are
  both empty. So a pawn whose flag is true never gets the two-square advance, even on its
  starting row with both squares empty.
\<close>

theorem Peon_avance_doble_requiere_no_movida:
  assumes "direccion self = obtener_direccion_color (color self)"
    and "dentro_tablero f c" "dentro_tablero (f + 2 * direccion self) c"
    and "Peon_obtener_hijos self (f, c) t = Inr movs"
    and "posicion_a_notacion f c = Inr pn"
    and "posicion_a_notacion (f + 2 * direccion self) c = Inr d2"
  shows "pn @ '' '' @ d2 \<in> set movs \<longleftrightarrow>
      \<not> movida self \<and> f = fila_inicial self
      \<and> t (f + direccion self) c = ''...'' \<and> t (f + 2 * direccion self) c = ''...''"
proof -
  let ?dir = "direccion self"
  from direccion_constructor [OF assms(1)] have dir: "?dir = 1 \<or> ?dir = - 1" .
  with assms(2,3) have b: "dentro_tablero (f + ?dir) c"
    by (auto simp: dentro_tablero_def)
  from posicion_a_notacion_total [OF b] obtain d1 where
    d1: "posicion_a_notacion (f + ?dir) c = Inr d1" ..
  let ?av = "if t (f + ?dir) c \<noteq> ''...'' then []
          else if \<not> movida self \<and> f = fila_inicial self
                  \<and> dentro_tablero (f + 2 * ?dir) c
                  \<and> t (f + 2 * ?dir) c = ''...''
          then [pn @ '' '' @ d1, pn @ '' '' @ d2]
          else [pn @ '' '' @ d1]"
  have av: "Peon_avances self pn f c t = Inr ?av"
    using b d1 assms(6) by (rule Peon_avances_eq)
  have m2: "pn @ '' '' @ d2 \<in> set movs \<longleftrightarrow> pn @ '' '' @ d2 \<in> set ?av"
    using assms(2) assms(3) assms(5) assms(6) av assms(4) by (rule Peon_obtener_hijos_columna)
  have ne: "d1 \<noteq> d2"
  proof
    assume "d1 = d2"
    with posicion_a_notacion_inyectiva [OF b assms(3) d1] assms(6)
    have "f + ?dir = f + 2 * ?dir" by simp
    with dir show False by auto
  qed
  from ne assms(3) have "pn @ '' '' @ d2 \<in> set ?av \<longleftrightarrow>
      \<not> movida self \<and> f = fila_inicial self
      \<and> t (f + direccion self) c = ''...'' \<and> t (f + 2 * direccion self) c = ''...''"
    by (simp; force)
  with m2 show ?thesis by (rule trans)
qed

lemmas posicion_eval = posicion_a_notacion_def elem_def COLUMNAS_def str_def str_nat.simps
lemmas peon_eval = Peon_obtener_hijos_def Peon_avances_def leer_dentro dentro_tablero_def
  crear_pieza_def obtener_direccion_color_def obtener_fila_inicial_def car_def

lemma tablero_peones_celdas:
  "tablero_peones 5 4 = ''...''" "tablero_peones 4 4 = ''...''"
  "tablero_peones 5 3 = ''...''" "tablero_peones 5 5 = ''...''"
  "tablero_peones 2 2 = ''...''" "tablero_peones 3 2 = ''...''"
  "tablero_peones 2 1 = ''...''" "tablero_peones 2 3 = ''...''"
  by (simp_all add: tablero_peones_def poner_apply tablero_vacio_apply)

lemma tablero_peones_no_vacias: "\<forall>i j. tablero_peones i j \<noteq> []"
  by (simp add: tablero_peones_def poner_apply tablero_vacio_apply)

text \<open>
  Claim C8 as stated does not hold for every pawn on its starting row: the white pawn
  on e2 whose \<open>movida\<close> flag is true, with e3 and e4 empty, gets the one-square advance
  only.
\<close>

theorem Peon_movido_en_fila_inicial_counterexample:
  "tablero_peones 5 4 = ''...'' \<and> tablero_peones 4 4 = ''...''
   \<and> Peon_obtener_hijos ((crear_pieza Peon ''B'' 5)\<lparr>movida := True\<rparr>) (6, 4) tablero_peones
       = Inr [''e2 e3'']"
  by (simp add: peon_eval posicion_eval tablero_peones_celdas)

theorem Peon_avance_doble_sin_mover_witness:
  "(\<exists>movs. Peon_obtener_hijos (crear_pieza Peon ''B'' 5) (6, 4) tablero_peones = Inr movs
     \<and> ''e2 e3'' \<in> set movs \<and> ''e2 e4'' \<in> set movs)
   \<and> (\<exists>movs. Peon_obtener_hijos (crear_pieza Peon ''B'' 5) (6, 4)
                 (poner tablero_peones 5 4 ''NC1'') = Inr movs
     \<and> ''e2 e3'' \<notin> set movs \<and> ''e2 e4'' \<notin> set movs)"
proof -
  let ?p = "crear_pieza Peon ''B'' 5"
  have p: "direccion ?p = obtener_direccion_color (color ?p)"
    "fila_inicial ?p = obtener_fila_inicial (color ?p)"
    by (simp_all add: crear_pieza_def)
  have v: "fila_inicial ?p = 6" "direccion ?p = - 1" "\<not> movida ?p"
    by (simp_all add: crear_pieza_def obtener_direccion_color_def obtener_fila_inicial_def)
  have n: "posicion_a_notacion 6 4 = Inr ''e2''" "posicion_a_notacion 5 4 = Inr ''e3''"
    "posicion_a_notacion 4 4 = Inr ''e4''"
    by (simp_all add: posicion_eval)
  have o: "\<forall>i j. poner tablero_peones 5 4 ''NC1'' i j \<noteq> []"
    "poner tablero_peones 5 4 ''NC1'' 5 4 \<noteq> ''...''"
    using tablero_peones_no_vacias by (simp_all add: poner_apply)
  from Peon_avance_doble_sin_mover [OF p, of 4 tablero_peones] tablero_peones_no_vacias
  have 1: "\<exists>movs. Peon_obtener_hijos ?p (6, 4) tablero_peones = Inr movs
     \<and> ''e2 e3'' \<in> set movs \<and> ''e2 e4'' \<in> set movs"
    by (simp add: v n tablero_peones_celdas)
  from Peon_avance_doble_sin_mover [OF p, of 4 "poner tablero_peones 5 4 ''NC1''"] o
  have 2: "\<exists>movs. Peon_obtener_hijos ?p (6, 4) (poner tablero_peones 5 4 ''NC1'') = Inr movs
     \<and> ''e2 e3'' \<notin> set movs \<and> ''e2 e4'' \<notin> set movs"
    by (simp add: v n)
  from 1 2 show ?thesis ..
qed

theorem Peon_avance_doble_requiere_no_movida_witness:
  "Peon_obtener_hijos ((crear_pieza Peon ''N'' 3)\<lparr>movida := True\<rparr>) (1, 2) tablero_peones
     = Inr [''c7 c6'']
   \<and> Peon_obtener_hijos (crear_pieza Peon ''N'' 3) (1, 2) tablero_peones
     = Inr [''c7 c6'', ''c7 c5'']
   \<and> tablero_peones 2 2 = ''...'' \<and> tablero_peones 3 2 = ''...''
   \<and> ''c7 c5'' \<notin> set [''c7 c6''] \<and> ''c7 c5'' \<in> set [''c7 c6'', ''c7 c5'']"
proof -
  let ?p = "(crear_pieza Peon ''N'' 3)\<lparr>movida := True\<rparr>"
  let ?q = "crear_pieza Peon ''N'' 3"
  have p: "direccion ?p = obtener_direccion_color (color ?p)"
    "direccion ?q = obtener_direccion_color (color ?q)"
    by (simp_all add: crear_pieza_def)
  have v: "direccion ?p = 1" "movida ?p" "direccion ?q = 1" "\<not> movida ?q" "fila_inicial ?q = 1"
    by (simp_all add: crear_pieza_def obtener_direccion_color_def obtener_fila_inicial_def)
  have b: "dentro_tablero 1 2" "dentro_tablero (1 + 2 * direccion ?p) 2"
    "dentro_tablero (1 + 2 * direccion ?q) 2"
    by (simp_all add: v dentro_tablero_def)
  have h: "Peon_obtener_hijos ?p (1, 2) tablero_peones = Inr [''c7 c6'']"
    by (simp add: peon_eval posicion_eval tablero_peones_celdas)
  have h': "Peon_obtener_hijos ?q (1, 2) tablero_peones = Inr [''c7 c6'', ''c7 c5'']"
    by (simp add: peon_eval posicion_eval tablero_peones_celdas)
  have n: "posicion_a_notacion 1 2 = Inr ''c7''"
    "posicion_a_notacion (1 + 2 * direccion ?p) 2 = Inr ''c5''"
    "posicion_a_notacion (1 + 2 * direccion ?q) 2 = Inr ''c5''"
    by (simp_all add: v posicion_eval)
  from Peon_avance_doble_requiere_no_movida [OF p(1) b(1,2) h n(1,2)] v
  have 1: "''c7 c5'' \<notin> set [''c7 c6'']" by simp
  from Peon_avance_doble_requiere_no_movida [OF p(2) b(1,3) h' n(1,3)] v tablero_peones_celdas
  have 2: "''c7 c5'' \<in> set [''c7 c6'', ''c7 c5'']" by simp
  from h h' 1 2 tablero_peones_celdas show ?thesis by simp
qed

section \<open>The executor and the registry\<close>

lemma indice_Inr: "indice f = Inr i \<Longrightarrow> 0 \<le> i \<and> i < 8"
  by (auto simp: indice_def split: if_splits)

lemma leer_Inr:
  assumes "leer t f c = Inr x"
  shows "\<exists>i j. indice f = Inr i \<and> indice c = Inr j \<and> dentro_tablero i j \<and> x = t i j"
proof -
  from assms obtain i j where ij: "indice f = Inr i" "indice c = Inr j" "x = t i j"
    by (auto simp: leer_def split: sum.splits)
  with indice_Inr [of f i] indice_Inr [of c j] show ?thesis
    by (auto simp: dentro_tablero_def)
qed

lemma escribir_indice:
  "indice f = Inr i \<Longrightarrow> indice c = Inr j \<Longrightarrow> escribir t f c v = Inr (poner t i j v)"
  by (simp add: escribir_def poner_def)

lemma get_pieza_sincronizar:
  "get_pieza (sincronizar_con_tablero g t) k
     = (if k \<in> piezas_en_tablero t then get_pieza g k else None)"
  unfolding get_pieza_def sincronizar_con_tablero_def
  by (induction g) auto

lemma claves_sincronizar:
  "set (map fst (sincronizar_con_tablero g t)) = set (map fst g) \<inter> piezas_en_tablero t"
  unfolding sincronizar_con_tablero_def by (induction g) auto

lemma claves_delete: "set (map fst (AList.delete k g)) = set (map fst g) - {k}"
  by (induction g) auto

lemma claves_update: "set (map fst (AList.update k v g)) = insert k (set (map fst g))"
  by (induction g) auto

lemma claves_eliminar_capturada:
  "set (map fst (eliminar_capturada g did ty))
     = (if did \<noteq> ''...'' \<and> ty \<noteq> ENROQUE then set (map fst g) - {did} else set (map fst g))"
  using claves_delete [of did g] by (simp add: eliminar_capturada_def)

lemma ejecutar_normal_Inr:
  assumes "ejecutar_normal g1 t pid pieza fd cd fh ch = (Inr t', g2)"
    and "indice fd = Inr i_d" "indice cd = Inr j_d" "indice fh = Inr i_h" "indice ch = Inr j_h"
  shows "\<exists>p. pieza = Some p
     \<and> t' = poner (poner t i_h j_h pid) i_d j_d ''...''
     \<and> g2 = (if map_of g1 pid = None then g1
             else AList.update pid
                    ((if clase p = Peon
                      then p\<lparr>movimiento_doble_reciente := (\<bar>fh - fd\<bar> = 2)\<rparr> else p)
                     \<lparr>movida := True\<rparr>) g1)"
  using assms(1)
  by (auto simp: ejecutar_normal_def escribir_indice [OF assms(4,5)]
      escribir_indice [OF assms(2,3)] Let_def split: option.splits)

lemma ejecutar_promocion_Inr:
  assumes "ejecutar_promocion g1 t pid info fd cd fh ch = (Inr t', g2)"
    and "indice fd = Inr i_d" "indice cd = Inr j_d" "indice fh = Inr i_h" "indice ch = Inr j_h"
  shows "\<exists>c0 k n. car pid 0 = Inr c0 \<and> factory info = Inr k
     \<and> max_num_de ([c0] @ formato info) (map fst g1) 0 = Inr n
     \<and> t' = poner (poner t i_d j_d ''...'') i_h j_h ([c0] @ formato info @ str (n + 1))
     \<and> g2 = AList.update ([c0] @ formato info @ str (n + 1)) (crear_pieza k [c0] (n + 1))
              (AList.delete pid g1)"
  using assms(1)
  by (auto simp: ejecutar_promocion_def escribir_indice [OF assms(4,5)]
      escribir_indice [OF assms(2,3)] Let_def split: sum.splits)

lemma get_pieza_eliminar_capturada:
  "k \<noteq> did \<Longrightarrow> get_pieza (eliminar_capturada g did ty) k = get_pieza g k"
  by (simp add: eliminar_capturada_def get_pieza_def)

lemma factory_Inr:
  assumes "factory info = Inr k"
  shows "\<exists>l. formato info = [l] \<and> l \<noteq> CHR ''.''"
proof -
  from assms obtain x where x: "info = Some x" "map_of PIEZAS_FACTORY x = Some k"
    by (auto simp: factory_def split: option.splits)
  from x(2) have "x \<in> fst ` set PIEZAS_FACTORY" by (rule map_of_SomeD [THEN imageI [where f = fst], simplified])
  then have "x = ''P'' \<or> x = ''T'' \<or> x = ''C'' \<or> x = ''A'' \<or> x = ''Q'' \<or> x = ''R''"
    by (simp add: PIEZAS_FACTORY_def)
  with x(1) show ?thesis by (auto simp: formato_def)
qed

lemma ejecutar_movimiento_Inr:
  assumes "ejecutar_movimiento m t g = (Inr t', g')"
  shows "\<exists>fd cd fh ch i_d j_d i_h j_h g2.
      notacion_a_posicion (desde m) = Inr (fd, cd)
    \<and> notacion_a_posicion (hasta m) = Inr (fh, ch)
    \<and> indice fd = Inr i_d \<and> indice cd = Inr j_d \<and> indice fh = Inr i_h \<and> indice ch = Inr j_h
    \<and> dentro_tablero i_d j_d \<and> dentro_tablero i_h j_h
    \<and> (if tipo m = PROMOCION then
          ejecutar_promocion (eliminar_capturada g (t i_h j_h) (tipo m)) t (t i_d j_d)
            (info_adicional m) fd cd fh ch
        else if tipo m = ENROQUE then (Inr t, eliminar_capturada g (t i_h j_h) (tipo m))
        else ejecutar_normal (eliminar_capturada g (t i_h j_h) (tipo m)) t (t i_d j_d)
               (get_pieza g (t i_d j_d)) fd cd fh ch) = (Inr t', g2)
    \<and> g' = sincronizar_con_tablero g2 t'"
proof -
  from assms obtain fd cd where d: "notacion_a_posicion (desde m) = Inr (fd, cd)"
    by (auto simp: ejecutar_movimiento_def split: sum.splits)
  from assms d obtain fh ch where h: "notacion_a_posicion (hasta m) = Inr (fh, ch)"
    by (auto simp: ejecutar_movimiento_def split: sum.splits)
  from assms d h obtain pid where l1: "leer t fd cd = Inr pid"
    by (auto simp: ejecutar_movimiento_def split: sum.splits)
  from assms d h l1 obtain did where l2: "leer t fh ch = Inr did"
    by (auto simp: ejecutar_movimiento_def split: sum.splits)
  from leer_Inr [OF l1] obtain i_d j_d where
    id: "indice fd = Inr i_d" "indice cd = Inr j_d" "dentro_tablero i_d j_d" "pid = t i_d j_d"
    by blast
  from leer_Inr [OF l2] obtain i_h j_h where
    ih: "indice fh = Inr i_h" "indice ch = Inr j_h" "dentro_tablero i_h j_h" "did = t i_h j_h"
    by blast
  let ?r = "if tipo m = PROMOCION then
          ejecutar_promocion (eliminar_capturada g did (tipo m)) t pid
            (info_adicional m) fd cd fh ch
        else if tipo m = ENROQUE then (Inr t, eliminar_capturada g did (tipo m))
        else ejecutar_normal (eliminar_capturada g did (tipo m)) t pid
               (get_pieza g pid) fd cd fh ch"
  from assms have e: "(case ?r of (r, piezas2) \<Rightarrow>
      (case r of Inl e \<Rightarrow> (Inl e, piezas2)
       | Inr nuevo_tablero \<Rightarrow> (Inr nuevo_tablero, sincronizar_con_tablero piezas2 nuevo_tablero)))
      = (Inr t', g')"
    by (simp add: ejecutar_movimiento_def d h l1 l2 Let_def)
  obtain r g2 where r: "?r = (r, g2)" by (cases ?r)
  with e have "r = Inr t'" "g' = sincronizar_con_tablero g2 t'"
    by (auto split: sum.splits)
  with r d h id ih show ?thesis by blast
qed

lemma leer_indice:
  "indice f = Inr i \<Longrightarrow> indice c = Inr j \<Longrightarrow> leer t f c = Inr (t i j)"
  by (simp add: leer_def)

text \<open>
  Claim C4, amended (the counterexample follows the evaluation lemmas below). Whenever
  \<open>ejecutar_movimiento\<close> returns: for a \<open>NORMAL\<close> or \<open>EN_PASSANT\<close> move of a piece
  whose id differs from the id on the destination square, the piece stands on the
  destination square and is registered with \<open>movida\<close> true; for a \<open>PROMOCION\<close> move the
  destination square holds a new id, registered with a record whose \<open>movida\<close> is false,
  as the constructor leaves it.
\<close>

theorem ejecutar_movimiento_marca_movida:
  assumes "ejecutar_movimiento m t g = (Inr t', g')"
    and "notacion_a_posicion (desde m) = Inr (fd, cd)"
    and "notacion_a_posicion (hasta m) = Inr (fh, ch)"
    and "leer t fd cd = Inr pieza_id" and "leer t fh ch = Inr destino_id"
  shows "(tipo m = NORMAL \<or> tipo m = EN_PASSANT \<longrightarrow>
            pieza_id \<noteq> ''...'' \<and> pieza_id \<noteq> destino_id \<longrightarrow>
            leer t' fh ch = Inr pieza_id
            \<and> (\<exists>p. get_pieza g' pieza_id = Some p \<and> movida p))
       \<and> (tipo m = PROMOCION \<longrightarrow>
            (\<exists>nuevo_id p. leer t' fh ch = Inr nuevo_id
               \<and> get_pieza g' nuevo_id = Some p \<and> \<not> movida p))"
proof -
  from ejecutar_movimiento_Inr [OF assms(1)] assms(2,3)
  obtain i_d j_d i_h j_h g2 where
    i: "indice fd = Inr i_d" "indice cd = Inr j_d" "indice fh = Inr i_h" "indice ch = Inr j_h"
    and b: "dentro_tablero i_d j_d" "dentro_tablero i_h j_h"
    and r: "(if tipo m = PROMOCION then
          ejecutar_promocion (eliminar_capturada g (t i_h j_h) (tipo m)) t (t i_d j_d)
            (info_adicional m) fd cd fh ch
        else if tipo m = ENROQUE then (Inr t, eliminar_capturada g (t i_h j_h) (tipo m))
        else ejecutar_normal (eliminar_capturada g (t i_h j_h) (tipo m)) t (t i_d j_d)
               (get_pieza g (t i_d j_d)) fd cd fh ch) = (Inr t', g2)"
    and s: "g' = sincronizar_con_tablero g2 t'"
    by auto
  from assms(4,5) i have ids: "pieza_id = t i_d j_d" "destino_id = t i_h j_h"
    by (simp_all add: leer_indice)
  let ?g1 = "eliminar_capturada g (t i_h j_h) (tipo m)"
  show ?thesis
  proof (intro conjI impI)
    assume ty: "tipo m = NORMAL \<or> tipo m = EN_PASSANT"
      and ne: "pieza_id \<noteq> ''...'' \<and> pieza_id \<noteq> destino_id"
    from ty r have "ejecutar_normal ?g1 t (t i_d j_d) (get_pieza g (t i_d j_d)) fd cd fh ch
        = (Inr t', g2)"
      by auto
    from ejecutar_normal_Inr [OF this i] obtain p where
      p: "get_pieza g (t i_d j_d) = Some p"
      and t': "t' = poner (poner t i_h j_h (t i_d j_d)) i_d j_d ''...''"
      and g2: "g2 = (if map_of ?g1 (t i_d j_d) = None then ?g1
             else AList.update (t i_d j_d)
                    ((if clase p = Peon
                      then p\<lparr>movimiento_doble_reciente := (\<bar>fh - fd\<bar> = 2)\<rparr> else p)
                     \<lparr>movida := True\<rparr>) ?g1)"
      by blast
    from ne ids have dif: "\<not> (i_h = i_d \<and> j_h = j_d)" by auto
    with t' have c: "t' i_h j_h = pieza_id" by (auto simp: poner_apply ids)
    with i show "leer t' fh ch = Inr pieza_id" by (simp add: leer_indice)
    from ne ids p have "map_of ?g1 (t i_d j_d) = Some p"
      using get_pieza_eliminar_capturada [of "t i_d j_d" "t i_h j_h" g "tipo m"]
      by (simp add: get_pieza_def)
    with g2 have "\<exists>q. get_pieza g2 pieza_id = Some q \<and> movida q"
      by (simp add: get_pieza_def AList.update_conv' ids)
    moreover from b c ne have "pieza_id \<in> piezas_en_tablero t'"
      by (intro en_tablero_I [of i_h j_h]) simp_all
    ultimately show "\<exists>p. get_pieza g' pieza_id = Some p \<and> movida p"
      by (simp add: s get_pieza_sincronizar)
  next
    assume ty: "tipo m = PROMOCION"
    with r have "ejecutar_promocion ?g1 t (t i_d j_d) (info_adicional m) fd cd fh ch
        = (Inr t', g2)"
      by simp
    from ejecutar_promocion_Inr [OF this i] obtain c0 k n where
      k: "factory (info_adicional m) = Inr k"
      and t': "t' = poner (poner t i_d j_d ''...'') i_h j_h
                 ([c0] @ formato (info_adicional m) @ str (n + 1))"
      and g2: "g2 = AList.update ([c0] @ formato (info_adicional m) @ str (n + 1))
              (crear_pieza k [c0] (n + 1)) (AList.delete (t i_d j_d) ?g1)"
      by blast
    let ?nuevo = "[c0] @ formato (info_adicional m) @ str (n + 1)"
    from factory_Inr [OF k] have nv: "?nuevo \<noteq> ''...''" by auto
    from t' have c: "t' i_h j_h = ?nuevo" by (simp add: poner_apply)
    with i have 1: "leer t' fh ch = Inr ?nuevo" by (simp add: leer_indice)
    from g2 have "get_pieza g2 ?nuevo = Some (crear_pieza k [c0] (n + 1))"
      by (simp add: get_pieza_def AList.update_conv')
    moreover from b c nv have "?nuevo \<in> piezas_en_tablero t'"
      by (intro en_tablero_I [of i_h j_h]) simp_all
    ultimately have 2: "get_pieza g' ?nuevo = Some (crear_pieza k [c0] (n + 1))"
      by (simp add: s get_pieza_sincronizar)
    have 3: "\<not> movida (crear_pieza k [c0] (n + 1))" by (simp add: crear_pieza_def)
    from 1 2 3 show "\<exists>nuevo_id p. leer t' fh ch = Inr nuevo_id
               \<and> get_pieza g' nuevo_id = Some p \<and> \<not> movida p"
      by blast
  qed
qed

lemma en_tablero_E:
  assumes "x \<in> piezas_en_tablero t"
  obtains i j where "dentro_tablero i j" "t i j = x" "x \<noteq> ''...''"
  using assms unfolding piezas_en_tablero_iff dentro_tablero_def by blast

text \<open>
  Claim C3, amended (the counterexample follows the evaluation lemmas below). Whenever
  \<open>ejecutar_movimiento\<close> returns, for every type of move, every id in the registry is an
  occupant of the returned board. The two sets are equal when, moreover, every occupant
  of the board given was registered and no id stood on two squares of it.
\<close>

theorem ejecutar_movimiento_registro_en_tablero:
  assumes "ejecutar_movimiento m t g = (Inr t', g')"
  shows "set (map fst g') \<subseteq> piezas_en_tablero t'
    \<and> (piezas_en_tablero t \<subseteq> set (map fst g)
        \<and> (\<forall>i j i' j'. dentro_tablero i j \<and> dentro_tablero i' j'
               \<and> t i j = t i' j' \<and> t i j \<noteq> ''...'' \<longrightarrow> i = i' \<and> j = j')
       \<longrightarrow> set (map fst g') = piezas_en_tablero t')"
proof -
  from ejecutar_movimiento_Inr [OF assms]
  obtain fd cd fh ch i_d j_d i_h j_h g2 where
    i: "indice fd = Inr i_d" "indice cd = Inr j_d" "indice fh = Inr i_h" "indice ch = Inr j_h"
    and b: "dentro_tablero i_d j_d" "dentro_tablero i_h j_h"
    and r: "(if tipo m = PROMOCION then
          ejecutar_promocion (eliminar_capturada g (t i_h j_h) (tipo m)) t (t i_d j_d)
            (info_adicional m) fd cd fh ch
        else if tipo m = ENROQUE then (Inr t, eliminar_capturada g (t i_h j_h) (tipo m))
        else ejecutar_normal (eliminar_capturada g (t i_h j_h) (tipo m)) t (t i_d j_d)
               (get_pieza g (t i_d j_d)) fd cd fh ch) = (Inr t', g2)"
    and s: "g' = sincronizar_con_tablero g2 t'"
    by blast
  let ?pid = "t i_d j_d" and ?did = "t i_h j_h"
  let ?g1 = "eliminar_capturada g ?did (tipo m)"
  have sub: "set (map fst g') \<subseteq> piezas_en_tablero t'"
    unfolding s claves_sincronizar by blast
  have eq: "set (map fst g') = piezas_en_tablero t'"
    if reg: "piezas_en_tablero t \<subseteq> set (map fst g)"
    and uni: "\<forall>i j i' j'. dentro_tablero i j \<and> dentro_tablero i' j'
               \<and> t i j = t i' j' \<and> t i j \<noteq> ''...'' \<longrightarrow> i = i' \<and> j = j'"
  proof -
    have un: "i = i' \<and> j = j'"
      if "dentro_tablero i j" "dentro_tablero i' j'" "t i j = t i' j'" "t i j \<noteq> ''...''"
      for i j i' j'
      using uni [rule_format, of i j i' j'] that by simp
    have otras: "x \<in> set (map fst g) \<and> x \<noteq> ?did \<and> x \<noteq> ?pid"
      if x: "dentro_tablero i j" "t i j = x" "x \<noteq> ''...''"
        "\<not> (i = i_h \<and> j = j_h)" "\<not> (i = i_d \<and> j = j_d)" for x i j
    proof -
      from x(1-3) have "x \<in> piezas_en_tablero t" by (intro en_tablero_I [of i j]) simp_all
      with reg have "x \<in> set (map fst g)" by blast
      moreover from un [OF x(1) b(2)] x have "x \<noteq> ?did" by auto
      moreover from un [OF x(1) b(1)] x have "x \<noteq> ?pid" by auto
      ultimately show ?thesis by blast
    qed
    have "piezas_en_tablero t' \<subseteq> set (map fst g2)"
    proof (cases "tipo m = ENROQUE")
      case True
      with r have "t' = t" "g2 = g" by (simp_all add: eliminar_capturada_def)
      with reg show ?thesis by simp
    next
      case noenr: False
      show ?thesis
      proof (cases "tipo m = PROMOCION")
        case True
        with r have "ejecutar_promocion ?g1 t ?pid (info_adicional m) fd cd fh ch
            = (Inr t', g2)"
          by simp
        from ejecutar_promocion_Inr [OF this i] obtain c0 k n where
          t': "t' = poner (poner t i_d j_d ''...'') i_h j_h
                     ([c0] @ formato (info_adicional m) @ str (n + 1))"
          and g2: "g2 = AList.update ([c0] @ formato (info_adicional m) @ str (n + 1))
                  (crear_pieza k [c0] (n + 1)) (AList.delete ?pid ?g1)"
          by blast
        let ?nuevo = "[c0] @ formato (info_adicional m) @ str (n + 1)"
        have k2: "set (map fst g2) = insert ?nuevo (set (map fst ?g1) - {?pid})"
          unfolding g2 claves_update claves_delete ..
        show ?thesis
        proof
          fix x assume "x \<in> piezas_en_tablero t'"
          then obtain i j where x: "dentro_tablero i j" "t' i j = x" "x \<noteq> ''...''"
            by (rule en_tablero_E)
          show "x \<in> set (map fst g2)"
          proof (cases "i = i_h \<and> j = j_h")
            case True
            with x t' have "x = ?nuevo" by (simp add: poner_apply)
            then show ?thesis unfolding k2 by simp
          next
            case nh: False
            with x t' have nd: "\<not> (i = i_d \<and> j = j_d)" and "t i j = x"
              by (auto simp: poner_apply split: if_splits)
            from otras [OF x(1) this(2) x(3) nh nd]
            show ?thesis unfolding k2 claves_eliminar_capturada by auto
          qed
        qed
      next
        case False
        with noenr r have "ejecutar_normal ?g1 t ?pid (get_pieza g ?pid) fd cd fh ch
            = (Inr t', g2)"
          by simp
        from ejecutar_normal_Inr [OF this i] obtain p where
          p: "get_pieza g ?pid = Some p"
          and t': "t' = poner (poner t i_h j_h ?pid) i_d j_d ''...''"
          and g2: "g2 = (if map_of ?g1 ?pid = None then ?g1
                 else AList.update ?pid
                        ((if clase p = Peon
                          then p\<lparr>movimiento_doble_reciente := (\<bar>fh - fd\<bar> = 2)\<rparr> else p)
                         \<lparr>movida := True\<rparr>) ?g1)"
          by blast
        have k2: "set (map fst g2) = set (map fst ?g1)"
        proof (cases "map_of ?g1 ?pid = None")
          case True
          with g2 show ?thesis by simp
        next
          case False
          then have "?pid \<in> set (map fst ?g1)" by (simp add: map_of_eq_None_iff)
          then have "insert ?pid (set (map fst ?g1)) = set (map fst ?g1)" by blast
          moreover from False g2 obtain q where "g2 = AList.update ?pid q ?g1" by simp
          ultimately show ?thesis by (simp only: claves_update)
        qed
        from p have preg: "?pid \<in> set (map fst g)"
          by (auto simp: get_pieza_def dest: map_of_SomeD intro: rev_image_eqI)
        show ?thesis
        proof
          fix x assume "x \<in> piezas_en_tablero t'"
          then obtain i j where x: "dentro_tablero i j" "t' i j = x" "x \<noteq> ''...''"
            by (rule en_tablero_E)
          from x t' have nd: "\<not> (i = i_d \<and> j = j_d)"
            by (auto simp: poner_apply)
          show "x \<in> set (map fst g2)"
          proof (cases "i = i_h \<and> j = j_h")
            case True
            with nd x t' have xp: "x = ?pid" by (auto simp: poner_apply)
            have "?pid \<noteq> ?did"
            proof
              assume "?pid = ?did"
              with un [OF b(1) b(2)] x(3) xp have "i_d = i_h \<and> j_d = j_h" by simp
              with True nd show False by simp
            qed
            with preg xp show ?thesis unfolding k2 claves_eliminar_capturada by auto
          next
            case nh: False
            with nd x t' have "t i j = x" by (auto simp: poner_apply)
            from otras [OF x(1) this x(3) nh nd]
            show ?thesis unfolding k2 claves_eliminar_capturada by auto
          qed
        qed
      qed
    qed
    then show ?thesis unfolding s claves_sincronizar by blast
  qed
  from sub eq show ?thesis by blast
qed

lemma ejecutar_promocion_a_reina:
  "ejecutar_movimiento promocion_a_reina tablero_promocion gestor_promocion
     = (Inr (poner (poner tablero_promocion 1 0 ''...'') 0 0 ''BQ1''),
        [(''BR1'', crear_pieza Rey ''B'' 1), (''NR1'', crear_pieza Rey ''N'' 1),
         (''BQ1'', crear_pieza Queen ''B'' 1)])"
proof -
  let ?t = "poner (poner tablero_promocion 1 0 ''...'') 0 0 ''BQ1''"
  let ?g = "[(''BR1'', crear_pieza Rey ''B'' 1), (''NR1'', crear_pieza Rey ''N'' 1),
         (''BQ1'', crear_pieza Queen ''B'' 1)]"
  have d: "notacion_a_posicion ''a7'' = Inr (1, 0)" by (simp add: notacion_eval)
  have h: "notacion_a_posicion ''a8'' = Inr (0, 0)" by (simp add: notacion_eval)
  have l1: "leer tablero_promocion 1 0 = Inr ''BP1''"
    by (simp add: celda_eval tablero_promocion_def)
  have l2: "leer tablero_promocion 0 0 = Inr ''...''"
    by (simp add: celda_eval tablero_promocion_def)
  have e1: "escribir tablero_promocion 1 0 ''...'' = Inr (poner tablero_promocion 1 0 ''...'')"
    by (simp add: celda_eval)
  have e2: "escribir (poner tablero_promocion 1 0 ''...'') 0 0 ''BQ1'' = Inr ?t"
    by (simp add: celda_eval)
  have mx: "max_num_de ''BQ'' (map fst gestor_promocion) 0 = Inr 0"
    by (simp add: gestor_promocion_def startswith_def)
  have fa: "factory (Some ''Q'') = Inr Queen"
    by (simp add: factory_def PIEZAS_FACTORY_def)
  have s1: "str 1 = ''1''" by (simp add: str_def str_nat.simps)
  have up: "AList.update ''BQ1'' (crear_pieza Queen ''B'' 1)
              (AList.delete ''BP1'' gestor_promocion) = ?g"
    by (simp add: gestor_promocion_def)
  have n: "ejecutar_promocion gestor_promocion tablero_promocion ''BP1'' (Some ''Q'') 1 0 0 0
             = (Inr ?t, ?g)"
    by (simp add: ejecutar_promocion_def car_def formato_def mx fa s1 e1 e2 up Let_def)
  have p: "''BQ1'' \<in> piezas_en_tablero ?t" "''BR1'' \<in> piezas_en_tablero ?t"
    "''NR1'' \<in> piezas_en_tablero ?t"
    by (rule en_tablero_I [of 0 0], simp_all add: celda_eval tablero_promocion_def,
        rule en_tablero_I [of 7 4], simp_all add: celda_eval tablero_promocion_def,
        rule en_tablero_I [of 0 4], simp_all add: celda_eval tablero_promocion_def)
  have s: "sincronizar_con_tablero ?g ?t = ?g"
    using p by (simp add: sincronizar_con_tablero_def)
  show ?thesis
    by (simp add: ejecutar_movimiento_def promocion_a_reina_def d h l1 l2
        eliminar_capturada_def n s)
qed

lemma ejecutar_paso_de_rey:
  "ejecutar_movimiento paso_de_rey tablero_ajeno gestor_ajeno
     = (Inr (poner (poner tablero_ajeno 1 4 ''NR1'') 0 4 ''...''),
        [(''BR1'', crear_pieza Rey ''B'' 1),
         (''NR1'', (crear_pieza Rey ''N'' 1)\<lparr>movida := True\<rparr>)])"
proof -
  let ?t = "poner (poner tablero_ajeno 1 4 ''NR1'') 0 4 ''...''"
  let ?g = "[(''BR1'', crear_pieza Rey ''B'' 1),
         (''NR1'', (crear_pieza Rey ''N'' 1)\<lparr>movida := True\<rparr>)]"
  have d: "notacion_a_posicion ''e8'' = Inr (0, 4)" by (simp add: notacion_eval)
  have h: "notacion_a_posicion ''e7'' = Inr (1, 4)" by (simp add: notacion_eval)
  have l1: "leer tablero_ajeno 0 4 = Inr ''NR1''"
    by (simp add: celda_eval tablero_ajeno_def)
  have l2: "leer tablero_ajeno 1 4 = Inr ''...''"
    by (simp add: celda_eval tablero_ajeno_def)
  have e1: "escribir tablero_ajeno 1 4 ''NR1'' = Inr (poner tablero_ajeno 1 4 ''NR1'')"
    by (simp add: celda_eval)
  have e2: "escribir (poner tablero_ajeno 1 4 ''NR1'') 0 4 ''...'' = Inr ?t"
    by (simp add: celda_eval)
  have n: "ejecutar_normal gestor_ajeno tablero_ajeno ''NR1''
             (get_pieza gestor_ajeno ''NR1'') 0 4 1 4 = (Inr ?t, ?g)"
    by (simp add: ejecutar_normal_def e1 e2)
       (simp add: get_pieza_def gestor_ajeno_def crear_pieza_def)
  have p: "''BR1'' \<in> piezas_en_tablero ?t" "''NR1'' \<in> piezas_en_tablero ?t"
    by (rule en_tablero_I [of 7 4], simp_all add: celda_eval tablero_ajeno_def,
        rule en_tablero_I [of 1 4], simp_all add: celda_eval tablero_ajeno_def)
  have s: "sincronizar_con_tablero ?g ?t = ?g"
    using p by (simp add: sincronizar_con_tablero_def)
  show ?thesis
    by (simp add: ejecutar_movimiento_def paso_de_rey_def d h l1 l2
        eliminar_capturada_def n s)
qed

text \<open>
  Claim C3 as stated does not hold for every board: \<open>sincronizar_con_tablero\<close> only
  deletes from the registry. On a board holding the queen \<open>BQ2\<close>, which this registry
  does not know, the queen is on the returned board and not in the registry after a king's
  move.
\<close>

theorem registro_sin_pieza_del_tablero_counterexample:
  "\<exists>t' g'. ejecutar_movimiento paso_de_rey tablero_ajeno gestor_ajeno = (Inr t', g')
     \<and> ''BQ2'' \<in> piezas_en_tablero t' \<and> ''BQ2'' \<notin> set (map fst g')
     \<and> set (map fst g') \<noteq> piezas_en_tablero t'"
proof -
  let ?t = "poner (poner tablero_ajeno 1 4 ''NR1'') 0 4 ''...''"
  have a: "''BQ2'' \<in> piezas_en_tablero ?t"
    by (rule en_tablero_I [of 0 0]) (simp_all add: celda_eval tablero_ajeno_def)
  have b: "''BQ2'' \<notin> set (map fst [(''BR1'', crear_pieza Rey ''B'' 1),
         (''NR1'', (crear_pieza Rey ''N'' 1)\<lparr>movida := True\<rparr>)])"
    by simp
  from a b have "set (map fst [(''BR1'', crear_pieza Rey ''B'' 1),
         (''NR1'', (crear_pieza Rey ''N'' 1)\<lparr>movida := True\<rparr>)]) \<noteq> piezas_en_tablero ?t"
    by blast
  with a b ejecutar_paso_de_rey show ?thesis by blast
qed

text \<open>
  Claim C4 as stated does not hold for a promotion: on the promotion test's board, the
  queen \<open>BQ1\<close> created on a8 is registered with \<open>movida\<close> false.
\<close>

theorem promocion_no_marca_movida_counterexample:
  "\<exists>t' g'. ejecutar_movimiento promocion_a_reina tablero_promocion gestor_promocion
       = (Inr t', g')
     \<and> t' 0 0 = ''BQ1'' \<and> map_option movida (get_pieza g' ''BQ1'') = Some False"
proof -
  have "poner (poner tablero_promocion 1 0 ''...'') 0 0 ''BQ1'' 0 0 = ''BQ1''"
    by (simp add: poner_apply)
  moreover have "map_option movida (get_pieza [(''BR1'', crear_pieza Rey ''B'' 1),
       (''NR1'', crear_pieza Rey ''N'' 1), (''BQ1'', crear_pieza Queen ''B'' 1)] ''BQ1'')
      = Some False"
    by (simp add: get_pieza_def crear_pieza_def)
  ultimately show ?thesis using ejecutar_promocion_a_reina by blast
qed

theorem ejecutar_movimiento_registro_en_tablero_witness:
  "piezas_en_tablero tablero_promocion \<subseteq> set (map fst gestor_promocion)
   \<and> (\<exists>t' g'. ejecutar_movimiento promocion_a_reina tablero_promocion gestor_promocion
          = (Inr t', g')
        \<and> set (map fst g') = piezas_en_tablero t')"
proof -
  have o: "piezas_en_tablero tablero_promocion = {''BR1'', ''NR1'', ''BP1''}"
    unfolding tablero_promocion_def
    by (simp add: piezas_en_tablero_poner piezas_en_tablero_vacio dentro_tablero_def
        poner_apply tablero_vacio_apply)
  then have h1: "piezas_en_tablero tablero_promocion \<subseteq> set (map fst gestor_promocion)"
    by (simp add: gestor_promocion_def)
  have h2: "\<forall>i j i' j'. dentro_tablero i j \<and> dentro_tablero i' j'
      \<and> tablero_promocion i j = tablero_promocion i' j' \<and> tablero_promocion i j \<noteq> ''...''
      \<longrightarrow> i = i' \<and> j = j'"
    by (simp add: tablero_promocion_def poner_apply tablero_vacio_apply)
  from ejecutar_movimiento_registro_en_tablero [OF ejecutar_promocion_a_reina] h1 h2
  have "set (map fst [(''BR1'', crear_pieza Rey ''B'' 1), (''NR1'', crear_pieza Rey ''N'' 1),
         (''BQ1'', crear_pieza Queen ''B'' 1)])
      = piezas_en_tablero (poner (poner tablero_promocion 1 0 ''...'') 0 0 ''BQ1'')"
    by blast
  with h1 ejecutar_promocion_a_reina show ?thesis by blast
qed

theorem ejecutar_movimiento_marca_movida_witness:
  "(\<exists>t' g' p. ejecutar_movimiento paso_de_rey tablero_ajeno gestor_ajeno = (Inr t', g')
       \<and> leer t' 1 4 = Inr ''NR1'' \<and> get_pieza g' ''NR1'' = Some p \<and> movida p)
   \<and> (\<exists>t' g' nuevo_id p.
        ejecutar_movimiento promocion_a_reina tablero_promocion gestor_promocion = (Inr t', g')
        \<and> leer t' 0 0 = Inr nuevo_id \<and> get_pieza g' nuevo_id = Some p \<and> \<not> movida p)"
proof -
  have n: "notacion_a_posicion (desde paso_de_rey) = Inr (0, 4)"
    "notacion_a_posicion (hasta paso_de_rey) = Inr (1, 4)"
    "notacion_a_posicion (desde promocion_a_reina) = Inr (1, 0)"
    "notacion_a_posicion (hasta promocion_a_reina) = Inr (0, 0)"
    by (simp_all add: paso_de_rey_def promocion_a_reina_def notacion_eval)
  have l: "leer tablero_ajeno 0 4 = Inr ''NR1''" "leer tablero_ajeno 1 4 = Inr ''...''"
    "leer tablero_promocion 1 0 = Inr ''BP1''" "leer tablero_promocion 0 0 = Inr ''...''"
    by (simp_all add: celda_eval tablero_ajeno_def tablero_promocion_def)
  have ty: "tipo paso_de_rey = NORMAL" "tipo promocion_a_reina = PROMOCION"
    by (simp_all add: paso_de_rey_def promocion_a_reina_def)
  from ejecutar_movimiento_marca_movida [OF ejecutar_paso_de_rey n(1,2) l(1,2)] ty(1)
  have 1: "\<exists>t' g' p. ejecutar_movimiento paso_de_rey tablero_ajeno gestor_ajeno = (Inr t', g')
       \<and> leer t' 1 4 = Inr ''NR1'' \<and> get_pieza g' ''NR1'' = Some p \<and> movida p"
    using ejecutar_paso_de_rey by simp
  from ejecutar_movimiento_marca_movida [OF ejecutar_promocion_a_reina n(3,4) l(3,4)] ty(2)
  have 2: "\<exists>t' g' nuevo_id p.
        ejecutar_movimiento promocion_a_reina tablero_promocion gestor_promocion = (Inr t', g')
        \<and> leer t' 0 0 = Inr nuevo_id \<and> get_pieza g' nuevo_id = Some p \<and> \<not> movida p"
    using ejecutar_promocion_a_reina by simp
  from 1 2 show ?thesis ..
qed

section \<open>The sliding pieces\<close>

lemma todos_desde_uno_le:
  "(\<forall>j::nat. 1 \<le> j \<and> j \<le> Suc n \<longrightarrow> P j) \<longleftrightarrow> P 1 \<and> (\<forall>j. 1 \<le> j \<and> j \<le> n \<longrightarrow> P (Suc j))"
proof (intro iffI conjI allI impI)
  fix j assume a: "P 1 \<and> (\<forall>j. 1 \<le> j \<and> j \<le> n \<longrightarrow> P (Suc j))" "1 \<le> j \<and> j \<le> Suc n"
  show "P j"
  proof (cases "j = 1")
    case True with a show ?thesis by simp
  next
    case False
    with a(2) obtain i where "j = Suc i" "1 \<le> i" "i \<le> n" by (cases j) auto
    with a(1) show ?thesis by simp
  qed
qed auto

lemma todos_desde_uno_less:
  "(\<forall>j::nat. 1 \<le> j \<and> j < Suc (Suc n) \<longrightarrow> P j) \<longleftrightarrow>
     P 1 \<and> (\<forall>j. 1 \<le> j \<and> j < Suc n \<longrightarrow> P (Suc j))"
proof (intro iffI conjI allI impI)
  fix j assume a: "P 1 \<and> (\<forall>j. 1 \<le> j \<and> j < Suc n \<longrightarrow> P (Suc j))" "1 \<le> j \<and> j < Suc (Suc n)"
  show "P j"
  proof (cases "j = 1")
    case True with a show ?thesis by simp
  next
    case False
    with a(2) obtain i where "j = Suc i" "1 \<le> i" "i < Suc n" by (cases j) auto
    with a(1) show ?thesis by simp
  qed
qed auto

lemma paso_siguiente: "f + df + int j * df = f + int (Suc j) * (df::int)"
  by (simp add: algebra_simps)

lemma alcanza_iff:
  "alcanza t col (df, dc) f c k \<longleftrightarrow>
     1 \<le> k
     \<and> (\<forall>j. 1 \<le> j \<and> j \<le> k \<longrightarrow> dentro_tablero (f + int j * df) (c + int j * dc))
     \<and> (\<forall>j. 1 \<le> j \<and> j < k \<longrightarrow> t (f + int j * df) (c + int j * dc) = ''...'')
     \<and> (t (f + int k * df) (c + int k * dc) = ''...''
        \<or> take 1 (t (f + int k * df) (c + int k * dc)) \<noteq> col)"
proof (induction t col "(df, dc)" f c k rule: alcanza.induct)
  case (1 t col f c)
  show ?case by simp
next
  case (2 t col f c)
  have "(\<forall>j::nat. 1 \<le> j \<and> j \<le> Suc 0 \<longrightarrow> dentro_tablero (f + int j * df) (c + int j * dc))
      \<longleftrightarrow> dentro_tablero (f + df) (c + dc)"
    using todos_desde_uno_le [of 0 "\<lambda>j. dentro_tablero (f + int j * df) (c + int j * dc)"]
    by simp
  then show ?case by auto
next
  case (3 t col f c k)
  have a: "(\<forall>j::nat. 1 \<le> j \<and> j \<le> Suc (Suc k) \<longrightarrow>
               dentro_tablero (f + int j * df) (c + int j * dc))
      \<longleftrightarrow> dentro_tablero (f + df) (c + dc)
          \<and> (\<forall>j. 1 \<le> j \<and> j \<le> Suc k \<longrightarrow>
               dentro_tablero (f + df + int j * df) (c + dc + int j * dc))"
    using todos_desde_uno_le [of "Suc k" "\<lambda>j. dentro_tablero (f + int j * df) (c + int j * dc)"]
    by (simp only: paso_siguiente) simp
  have b: "(\<forall>j::nat. 1 \<le> j \<and> j < Suc (Suc k) \<longrightarrow> t (f + int j * df) (c + int j * dc) = ''...'')
      \<longleftrightarrow> t (f + df) (c + dc) = ''...''
          \<and> (\<forall>j. 1 \<le> j \<and> j < Suc k \<longrightarrow> t (f + df + int j * df) (c + dc + int j * dc) = ''...'')"
    using todos_desde_uno_less [of k "\<lambda>j. t (f + int j * df) (c + int j * dc) = ''...''"]
    by (simp only: paso_siguiente) simp
  have c: "f + df + int (Suc k) * df = f + int (Suc (Suc k)) * df"
    "c + dc + int (Suc k) * dc = c + int (Suc (Suc k)) * dc"
    by (rule paso_siguiente)+
  show ?case
    unfolding alcanza.simps "3.hyps" a b c by auto
qed

text \<open>The destinations within \<open>n\<close> steps along one direction, as move texts.\<close>

lemma destinos_paso:
  "(\<exists>k dn. 1 \<le> k \<and> k \<le> Suc n \<and> alcanza t col (df, dc) f c k
       \<and> posicion_a_notacion (f + int k * df) (c + int k * dc) = Inr dn \<and> m = pn @ '' '' @ dn)
   \<longleftrightarrow>
   (alcanza t col (df, dc) f c (Suc 0)
      \<and> (\<exists>dn. posicion_a_notacion (f + df) (c + dc) = Inr dn \<and> m = pn @ '' '' @ dn))
   \<or> (dentro_tablero (f + df) (c + dc) \<and> t (f + df) (c + dc) = ''...''
      \<and> (\<exists>k dn. 1 \<le> k \<and> k \<le> n \<and> alcanza t col (df, dc) (f + df) (c + dc) k
            \<and> posicion_a_notacion (f + df + int k * df) (c + dc + int k * dc) = Inr dn
            \<and> m = pn @ '' '' @ dn))"
  (is "?L \<longleftrightarrow> ?A \<or> ?B")
proof
  assume ?L
  then obtain k dn where k: "1 \<le> k" "k \<le> Suc n" "alcanza t col (df, dc) f c k"
    "posicion_a_notacion (f + int k * df) (c + int k * dc) = Inr dn" "m = pn @ '' '' @ dn"
    by blast
  show "?A \<or> ?B"
  proof (cases "k = Suc 0")
    case True
    with k have ?A by simp
    then show ?thesis ..
  next
    case False
    with k(1) obtain k' where k': "k = Suc k'" "1 \<le> k'" by (cases k) auto
    then obtain k'' where k'': "k' = Suc k''" by (cases k') auto
    from k(3) k' k'' have a: "dentro_tablero (f + df) (c + dc)" "t (f + df) (c + dc) = ''...''"
      "alcanza t col (df, dc) (f + df) (c + dc) k'"
      by simp_all
    from k(4) k' have "posicion_a_notacion (f + df + int k' * df) (c + dc + int k' * dc) = Inr dn"
      by (simp only: paso_siguiente)
    with a k' k(2) k(5) have ?B by auto
    then show ?thesis ..
  qed
next
  assume "?A \<or> ?B"
  then show ?L
  proof
    assume ?A
    then obtain dn where "alcanza t col (df, dc) f c (Suc 0)"
      "posicion_a_notacion (f + df) (c + dc) = Inr dn" "m = pn @ '' '' @ dn"
      by blast
    then have "1 \<le> Suc 0 \<and> Suc 0 \<le> Suc n \<and> alcanza t col (df, dc) f c (Suc 0)
       \<and> posicion_a_notacion (f + int (Suc 0) * df) (c + int (Suc 0) * dc) = Inr dn
       \<and> m = pn @ '' '' @ dn"
      by simp
    then show ?L by blast
  next
    assume ?B
    then obtain k dn where k: "dentro_tablero (f + df) (c + dc)" "t (f + df) (c + dc) = ''...''"
      "1 \<le> k" "k \<le> n" "alcanza t col (df, dc) (f + df) (c + dc) k"
      "posicion_a_notacion (f + df + int k * df) (c + dc + int k * dc) = Inr dn"
      "m = pn @ '' '' @ dn"
      by blast
    from k(3) obtain k' where k': "k = Suc k'" by (cases k) auto
    with k have "alcanza t col (df, dc) f c (Suc k)" by simp
    moreover from k(6) have
      "posicion_a_notacion (f + int (Suc k) * df) (c + int (Suc k) * dc) = Inr dn"
      by (simp only: paso_siguiente)
    ultimately have "1 \<le> Suc k \<and> Suc k \<le> Suc n \<and> alcanza t col (df, dc) f c (Suc k)
       \<and> posicion_a_notacion (f + int (Suc k) * df) (c + int (Suc k) * dc) = Inr dn
       \<and> m = pn @ '' '' @ dn"
      using k(4) k(7) by simp
    then show ?L by blast
  qed
qed

lemma rayo_mem:
  "rayo col pn t (df, dc) n f c movs = Inr r \<Longrightarrow>
   (m \<in> set r \<longleftrightarrow> m \<in> set movs \<or>
      (\<exists>k dn. 1 \<le> k \<and> k \<le> n \<and> alcanza t col (df, dc) f c k
         \<and> posicion_a_notacion (f + int k * df) (c + int k * dc) = Inr dn
         \<and> m = pn @ '' '' @ dn))"
proof (induction n arbitrary: f c movs)
  case 0
  then show ?case by simp
next
  case (Suc n)
  let ?f1 = "f + df" and ?c1 = "c + dc"
  show ?case
  proof (cases "dentro_tablero ?f1 ?c1")
    case False
    with Suc.prems have "r = movs" by simp
    with False show ?thesis unfolding destinos_paso by simp
  next
    case True
    note l = leer_dentro [OF True, of t]
    show ?thesis
    proof (cases "t ?f1 ?c1 = ''...''")
      case vacia: True
      with Suc.prems True l obtain dn1 where
        dn1: "posicion_a_notacion ?f1 ?c1 = Inr dn1"
        and r: "rayo col pn t (df, dc) n ?f1 ?c1 (movs @ [pn @ '' '' @ dn1]) = Inr r"
        by (auto split: sum.splits)
      from Suc.IH [OF r] True vacia dn1 show ?thesis
        unfolding destinos_paso by auto
    next
      case ocupada: False
      with Suc.prems True l obtain p where p: "car (t ?f1 ?c1) 0 = Inr p"
        by (auto split: sum.splits)
      then have tk: "take 1 (t ?f1 ?c1) = [p]"
        by (cases "t ?f1 ?c1") (auto simp: car_def)
      show ?thesis
      proof (cases "[p] = col")
        case True
        with Suc.prems \<open>dentro_tablero ?f1 ?c1\<close> l ocupada p have "r = movs" by simp
        with True ocupada tk show ?thesis unfolding destinos_paso by simp
      next
        case False
        with Suc.prems \<open>dentro_tablero ?f1 ?c1\<close> l ocupada p obtain dn1 where
          dn1: "posicion_a_notacion ?f1 ?c1 = Inr dn1" and r: "r = movs @ [pn @ '' '' @ dn1]"
          by (auto split: sum.splits)
        from False ocupada tk dn1 r \<open>dentro_tablero ?f1 ?c1\<close> show ?thesis
          unfolding destinos_paso by auto
      qed
    qed
  qed
qed

lemma rayo_total:
  assumes "\<forall>i j. t i j \<noteq> []"
  shows "\<exists>r. rayo col pn t (df, dc) n f c movs = Inr r"
proof (induction n arbitrary: f c movs)
  case 0
  show ?case by simp
next
  case (Suc n)
  show ?case
  proof (cases "dentro_tablero (f + df) (c + dc)")
    case False
    then show ?thesis by simp
  next
    case True
    from posicion_a_notacion_total [OF True] obtain dn where
      dn: "posicion_a_notacion (f + df) (c + dc) = Inr dn" ..
    from assms have "car (t (f + df) (c + dc)) 0 = Inr (hd (t (f + df) (c + dc)))"
      by (intro car_0) simp
    with True dn Suc.IH show ?thesis by (simp add: leer_dentro)
  qed
qed

lemma rayos_mem:
  "rayos col pn t f c ds movs = Inr r \<Longrightarrow>
   (m \<in> set r \<longleftrightarrow> m \<in> set movs \<or>
      (\<exists>d \<in> set ds. \<exists>k dn. 1 \<le> k \<and> k \<le> 7 \<and> alcanza t col d f c k
         \<and> posicion_a_notacion (f + int k * fst d) (c + int k * snd d) = Inr dn
         \<and> m = pn @ '' '' @ dn))"
proof (induction ds arbitrary: movs)
  case Nil
  then show ?case by simp
next
  case (Cons d ds)
  obtain df dc where d: "d = (df, dc)" by (cases d)
  from Cons.prems obtain r1 where r1: "rayo col pn t d 7 f c movs = Inr r1"
    and r: "rayos col pn t f c ds r1 = Inr r"
    by (auto split: sum.splits)
  from rayo_mem [OF r1 [unfolded d], of m] Cons.IH [OF r] d show ?case by auto
qed

lemma rayos_total:
  assumes "\<forall>i j. t i j \<noteq> []"
  shows "\<exists>r. rayos col pn t f c ds movs = Inr r"
proof (induction ds arbitrary: movs)
  case Nil
  show ?case by simp
next
  case (Cons d ds)
  obtain df dc where d: "d = (df, dc)" by (cases d)
  from rayo_total [OF assms] obtain r1 where "rayo col pn t (df, dc) 7 f c movs = Inr r1"
    by blast
  with Cons.IH d show ?case by simp
qed

lemma rayo_convexo:
  assumes "df = - 1 \<or> df = 0 \<or> df = (1::int)" "dc = - 1 \<or> dc = 0 \<or> dc = (1::int)"
    and "dentro_tablero f c" "dentro_tablero (f + int k * df) (c + int k * dc)"
    and "1 \<le> j" "j \<le> k"
  shows "dentro_tablero (f + int j * df) (c + int j * dc)"
  using assms by (auto simp: dentro_tablero_def)

lemma rayo_a_lo_mas_siete:
  assumes "df = - 1 \<or> df = 0 \<or> df = (1::int)" "dc = - 1 \<or> dc = 0 \<or> dc = (1::int)"
    and "(df, dc) \<noteq> (0, 0)"
    and "dentro_tablero f c" "dentro_tablero (f + int k * df) (c + int k * dc)"
  shows "k \<le> 7"
  using assms by (auto simp: dentro_tablero_def)

lemma deslizante_forma:
  assumes "rayos col pn t f c ds [] = Inr movs" "m \<in> set movs"
  shows "\<exists>f' c' dn. dentro_tablero f' c' \<and> posicion_a_notacion f' c' = Inr dn
           \<and> m = pn @ '' '' @ dn"
proof -
  from rayos_mem [OF assms(1), of m] assms(2) obtain d k dn where
    k: "alcanza t col d f c k"
       "posicion_a_notacion (f + int k * fst d) (c + int k * snd d) = Inr dn"
       "m = pn @ '' '' @ dn"
    by auto
  obtain df dc where d: "d = (df, dc)" by (cases d)
  from k(1) have "dentro_tablero (f + int k * df) (c + int k * dc)"
    unfolding d alcanza_iff by simp
  with k(2,3) d show ?thesis by auto
qed

lemma deslizante_destinos:
  assumes dirs: "\<forall>d \<in> set ds. (fst d = - 1 \<or> fst d = 0 \<or> fst d = 1)
                   \<and> (snd d = - 1 \<or> snd d = 0 \<or> snd d = 1) \<and> d \<noteq> (0, 0)"
    and b: "dentro_tablero f c" "dentro_tablero f' c'"
    and n: "posicion_a_notacion f' c' = Inr dn"
    and r: "rayos col pn t f c ds [] = Inr movs"
  shows "pn @ '' '' @ dn \<in> set movs \<longleftrightarrow>
     (\<exists>(df, dc) \<in> set ds. \<exists>k. 1 \<le> k \<and> f' = f + int k * df \<and> c' = c + int k * dc
        \<and> (\<forall>j. 1 \<le> j \<and> j < k \<longrightarrow> t (f + int j * df) (c + int j * dc) = ''...'')
        \<and> (t f' c' = ''...'' \<or> take 1 (t f' c') \<noteq> col))"
  (is "?L \<longleftrightarrow> ?R")
proof
  assume ?L
  with rayos_mem [OF r, of "pn @ '' '' @ dn"] obtain d k dn' where
    k: "d \<in> set ds" "alcanza t col d f c k"
       "posicion_a_notacion (f + int k * fst d) (c + int k * snd d) = Inr dn'"
       "pn @ '' '' @ dn = pn @ '' '' @ dn'"
    by auto
  obtain df dc where d: "d = (df, dc)" by (cases d)
  from k(2) have a: "1 \<le> k" "dentro_tablero (f + int k * df) (c + int k * dc)"
    "\<forall>j. 1 \<le> j \<and> j < k \<longrightarrow> t (f + int j * df) (c + int j * dc) = ''...''"
    "t (f + int k * df) (c + int k * dc) = ''...''
        \<or> take 1 (t (f + int k * df) (c + int k * dc)) \<noteq> col"
    unfolding d alcanza_iff by simp_all
  from k(4) have "dn = dn'" by simp
  with k(3) d have "posicion_a_notacion (f + int k * df) (c + int k * dc) = Inr dn" by simp
  from posicion_a_notacion_inyectiva [OF b(2) a(2) n this]
  have e: "f' = f + int k * df" "c' = c + int k * dc" by simp_all
  with a have "1 \<le> k \<and> f' = f + int k * df \<and> c' = c + int k * dc
        \<and> (\<forall>j. 1 \<le> j \<and> j < k \<longrightarrow> t (f + int j * df) (c + int j * dc) = ''...'')
        \<and> (t f' c' = ''...'' \<or> take 1 (t f' c') \<noteq> col)"
    by simp
  with k(1) d show ?R by blast
next
  assume ?R
  then obtain df dc k where d: "(df, dc) \<in> set ds"
    and k: "1 \<le> k" "f' = f + int k * df" "c' = c + int k * dc"
      "\<forall>j. 1 \<le> j \<and> j < k \<longrightarrow> t (f + int j * df) (c + int j * dc) = ''...''"
      "t f' c' = ''...'' \<or> take 1 (t f' c') \<noteq> col"
    by blast
  from dirs d have u: "df = - 1 \<or> df = 0 \<or> df = 1" "dc = - 1 \<or> dc = 0 \<or> dc = 1"
    "(df, dc) \<noteq> (0, 0)"
    by fastforce+
  from b(2) k(2,3) have bk: "dentro_tablero (f + int k * df) (c + int k * dc)" by simp
  have "\<forall>j. 1 \<le> j \<and> j \<le> k \<longrightarrow> dentro_tablero (f + int j * df) (c + int j * dc)"
    using rayo_convexo [OF u(1,2) b(1) bk] by blast
  with k have al: "alcanza t col (df, dc) f c k" unfolding alcanza_iff by simp
  from rayo_a_lo_mas_siete [OF u b(1) bk] have "k \<le> 7" .
  with k al n d have "\<exists>d \<in> set ds. \<exists>k dn'. 1 \<le> k \<and> k \<le> 7 \<and> alcanza t col d f c k
         \<and> posicion_a_notacion (f + int k * fst d) (c + int k * snd d) = Inr dn'
         \<and> pn @ '' '' @ dn = pn @ '' '' @ dn'"
    by (intro bexI [of _ "(df, dc)"] exI [of _ k] exI [of _ dn]) simp_all
  with rayos_mem [OF r, of "pn @ '' '' @ dn"] show ?L by simp
qed

lemma deslizante_obtener_hijos:
  assumes oh: "\<And>self f c t. oh self (f, c) t =
       (case posicion_a_notacion f c of Inl e \<Rightarrow> Inl e
        | Inr pn \<Rightarrow> rayos (color self) pn t f c ds [])"
    and dirs: "\<forall>d \<in> set ds. (fst d = - 1 \<or> fst d = 0 \<or> fst d = 1)
                   \<and> (snd d = - 1 \<or> snd d = 0 \<or> snd d = 1) \<and> d \<noteq> (0, 0)"
    and b: "dentro_tablero f c"
  shows "((\<forall>i j. t i j \<noteq> []) \<longrightarrow> (\<exists>movs. oh self (f, c) t = Inr movs))
     \<and> (\<forall>movs pn. oh self (f, c) t = Inr movs \<and> posicion_a_notacion f c = Inr pn \<longrightarrow>
         (\<forall>m \<in> set movs. \<exists>f' c' dn. dentro_tablero f' c'
              \<and> posicion_a_notacion f' c' = Inr dn \<and> m = pn @ '' '' @ dn)
       \<and> (\<forall>f' c' dn. dentro_tablero f' c' \<and> posicion_a_notacion f' c' = Inr dn \<longrightarrow>
            (pn @ '' '' @ dn \<in> set movs \<longleftrightarrow>
              (\<exists>(df, dc) \<in> set ds. \<exists>k. 1 \<le> k \<and> f' = f + int k * df \<and> c' = c + int k * dc
                 \<and> (\<forall>j. 1 \<le> j \<and> j < k \<longrightarrow> t (f + int j * df) (c + int j * dc) = ''...'')
                 \<and> (t f' c' = ''...'' \<or> take 1 (t f' c') \<noteq> color self)))))"
proof (intro conjI allI impI ballI)
  assume "\<forall>i j. t i j \<noteq> []"
  from posicion_a_notacion_total [OF b] obtain pn where "posicion_a_notacion f c = Inr pn" ..
  with rayos_total [OF \<open>\<forall>i j. t i j \<noteq> []\<close>, of "color self" pn f c ds "[]"]
  show "\<exists>movs. oh self (f, c) t = Inr movs" by (simp add: oh)
next
  fix movs pn m
  assume a: "oh self (f, c) t = Inr movs \<and> posicion_a_notacion f c = Inr pn" and m: "m \<in> set movs"
  then have "rayos (color self) pn t f c ds [] = Inr movs" by (auto simp: oh)
  from deslizante_forma [OF this m]
  show "\<exists>f' c' dn. dentro_tablero f' c' \<and> posicion_a_notacion f' c' = Inr dn
          \<and> m = pn @ '' '' @ dn" .
next
  fix movs pn f' c' dn
  assume a: "oh self (f, c) t = Inr movs \<and> posicion_a_notacion f c = Inr pn"
    and d: "dentro_tablero f' c' \<and> posicion_a_notacion f' c' = Inr dn"
  then have r: "rayos (color self) pn t f c ds [] = Inr movs" by (auto simp: oh)
  from d have d1: "dentro_tablero f' c'" and d2: "posicion_a_notacion f' c' = Inr dn"
    by simp_all
  show "pn @ '' '' @ dn \<in> set movs \<longleftrightarrow>
      (\<exists>(df, dc) \<in> set ds. \<exists>k. 1 \<le> k \<and> f' = f + int k * df \<and> c' = c + int k * dc
         \<and> (\<forall>j. 1 \<le> j \<and> j < k \<longrightarrow> t (f + int j * df) (c + int j * dc) = ''...'')
         \<and> (t f' c' = ''...'' \<or> take 1 (t f' c') \<noteq> color self))"
    by (rule deslizante_destinos [OF dirs b d1 d2 r])
qed

text \<open>
  Claim C7. For the rook, the bishop and the queen alike, from a square of the board:
  on a board with no empty-string cell \<open>obtener_hijos\<close> returns a list; every move of a
  returned list goes from the piece's square to a square of the board; and the move to a
  square of the board is in the list exactly when that square lies \<open>k \<ge> 1\<close> steps along
  one of the piece's directions, every square strictly before it on that ray is empty, and
  the square itself is empty or holds a piece whose first letter is not the mover's
  colour. So no candidate jumps over an occupied square, and the first occupied square of
  a ray is a destination exactly when it is enemy-occupied.
\<close>

theorem deslizantes_no_saltan:
  assumes "(obtener_hijos, direcciones) \<in>
      {(Torre_obtener_hijos, Torre_DIRECCIONES), (Alfil_obtener_hijos, Alfil_DIRECCIONES),
       (Queen_obtener_hijos, Queen_DIRECCIONES)}"
    and "dentro_tablero f c"
  shows "((\<forall>i j. t i j \<noteq> []) \<longrightarrow> (\<exists>movs. obtener_hijos self (f, c) t = Inr movs))
     \<and> (\<forall>movs pn. obtener_hijos self (f, c) t = Inr movs \<and> posicion_a_notacion f c = Inr pn
        \<longrightarrow>
         (\<forall>m \<in> set movs. \<exists>f' c' dn. dentro_tablero f' c'
              \<and> posicion_a_notacion f' c' = Inr dn \<and> m = pn @ '' '' @ dn)
       \<and> (\<forall>f' c' dn. dentro_tablero f' c' \<and> posicion_a_notacion f' c' = Inr dn \<longrightarrow>
            (pn @ '' '' @ dn \<in> set movs \<longleftrightarrow>
              (\<exists>(df, dc) \<in> set direcciones. \<exists>k. 1 \<le> k
                 \<and> f' = f + int k * df \<and> c' = c + int k * dc
                 \<and> (\<forall>j. 1 \<le> j \<and> j < k \<longrightarrow> t (f + int j * df) (c + int j * dc) = ''...'')
                 \<and> (t f' c' = ''...'' \<or> take 1 (t f' c') \<noteq> color self)))))"
proof -
  from assms(1) consider
      "obtener_hijos = Torre_obtener_hijos" "direcciones = Torre_DIRECCIONES"
    | "obtener_hijos = Alfil_obtener_hijos" "direcciones = Alfil_DIRECCIONES"
    | "obtener_hijos = Queen_obtener_hijos" "direcciones = Queen_DIRECCIONES"
    by auto
  then show ?thesis
  proof cases
    case 1
    show ?thesis unfolding 1
      by (rule deslizante_obtener_hijos [OF _ _ assms(2)])
         (simp_all add: Torre_obtener_hijos_def Torre_DIRECCIONES_def)
  next
    case 2
    show ?thesis unfolding 2
      by (rule deslizante_obtener_hijos [OF _ _ assms(2)])
         (simp_all add: Alfil_obtener_hijos_def Alfil_DIRECCIONES_def)
  next
    case 3
    show ?thesis unfolding 3
      by (rule deslizante_obtener_hijos [OF _ _ assms(2)])
         (simp_all add: Queen_obtener_hijos_def Queen_DIRECCIONES_def)
  qed
qed

lemma tablero_rayos_apply:
  "tablero_rayos i j =
     (if i = 2 \<and> j = 5 then ''NC1'' else if i = 1 \<and> j = 3 then ''NP4''
      else if i = 6 \<and> j = 3 then ''BP4'' else if i = 4 \<and> j = 3 then ''BQ1''
      else if i = 0 \<and> j = 4 then ''NR1'' else if i = 7 \<and> j = 4 then ''BR1'' else ''...'')"
  by (simp add: tablero_rayos_def poner_apply tablero_vacio_apply)

theorem deslizantes_no_saltan_witness:
  "\<exists>movs. Queen_obtener_hijos (crear_pieza Queen ''B'' 1) (4, 3) tablero_rayos = Inr movs
     \<and> ''d4 d3'' \<in> set movs \<and> ''d4 d2'' \<notin> set movs
     \<and> ''d4 d7'' \<in> set movs \<and> ''d4 d8'' \<notin> set movs
     \<and> ''d4 f6'' \<in> set movs"
proof -
  let ?q = "crear_pieza Queen ''B'' 1"
  let ?R = "\<lambda>f' c'. \<exists>(df, dc) \<in> set Queen_DIRECCIONES. \<exists>k. 1 \<le> k
      \<and> f' = 4 + int k * df \<and> c' = 3 + int k * dc
      \<and> (\<forall>j. 1 \<le> j \<and> j < k \<longrightarrow> tablero_rayos (4 + int j * df) (3 + int j * dc) = ''...'')
      \<and> (tablero_rayos f' c' = ''...'' \<or> take 1 (tablero_rayos f' c') \<noteq> color ?q)"
  have col: "color ?q = ''B''" by (simp add: crear_pieza_def)
  have m: "(Queen_obtener_hijos, Queen_DIRECCIONES) \<in>
      {(Torre_obtener_hijos, Torre_DIRECCIONES), (Alfil_obtener_hijos, Alfil_DIRECCIONES),
       (Queen_obtener_hijos, Queen_DIRECCIONES)}"
    by simp
  have b: "dentro_tablero 4 3" "dentro_tablero 5 3" "dentro_tablero 6 3" "dentro_tablero 1 3"
    "dentro_tablero 0 3" "dentro_tablero 2 5"
    by (simp_all add: dentro_tablero_def)
  have n: "posicion_a_notacion 4 3 = Inr ''d4''" "posicion_a_notacion 5 3 = Inr ''d3''"
    "posicion_a_notacion 6 3 = Inr ''d2''" "posicion_a_notacion 1 3 = Inr ''d7''"
    "posicion_a_notacion 0 3 = Inr ''d8''" "posicion_a_notacion 2 5 = Inr ''f6''"
    by (simp_all add: posicion_eval)
  have ne: "\<forall>i j. tablero_rayos i j \<noteq> []" by (simp add: tablero_rayos_apply)
  note th = deslizantes_no_saltan [OF m b(1), of tablero_rayos ?q]
  from th ne obtain movs where movs: "Queen_obtener_hijos ?q (4, 3) tablero_rayos = Inr movs"
    by blast
  from th movs n(1) have iff: "dentro_tablero f' c' \<Longrightarrow> posicion_a_notacion f' c' = Inr dn
      \<Longrightarrow> ''d4'' @ '' '' @ dn \<in> set movs \<longleftrightarrow> ?R f' c'" for f' c' dn
    by blast
  have d3: "?R 5 3"
  proof -
    have "1 \<le> (1::nat) \<and> (5::int) = 4 + int 1 * 1 \<and> (3::int) = 3 + int 1 * 0
      \<and> (\<forall>j. 1 \<le> j \<and> j < (1::nat) \<longrightarrow> tablero_rayos (4 + int j * 1) (3 + int j * 0) = ''...'')
      \<and> (tablero_rayos 5 3 = ''...'' \<or> take 1 (tablero_rayos 5 3) \<noteq> color ?q)"
      by (simp add: tablero_rayos_apply)
    then show ?thesis
      by (intro bexI [of _ "(1, 0)"]) (auto simp: Queen_DIRECCIONES_def)
  qed
  have d2: "\<not> ?R 6 3"
    by (simp add: tablero_rayos_apply col)
  have d7: "?R 1 3"
  proof -
    have "\<And>j::nat. 1 \<le> j \<and> j < 3 \<Longrightarrow> j = 1 \<or> j = 2" by arith
    then have "1 \<le> (3::nat) \<and> (1::int) = 4 + int 3 * (- 1) \<and> (3::int) = 3 + int 3 * 0
      \<and> (\<forall>j. 1 \<le> j \<and> j < (3::nat) \<longrightarrow>
            tablero_rayos (4 + int j * (- 1)) (3 + int j * 0) = ''...'')
      \<and> (tablero_rayos 1 3 = ''...'' \<or> take 1 (tablero_rayos 1 3) \<noteq> color ?q)"
      by (auto simp: tablero_rayos_apply col)
    then show ?thesis
      by (intro bexI [of _ "(- 1, 0)"]) (auto simp: Queen_DIRECCIONES_def)
  qed
  have d8: "\<not> ?R 0 3"
  proof
    assume "?R 0 3"
    then obtain df dc k where d: "(df, dc) \<in> set Queen_DIRECCIONES"
      and k: "1 \<le> k" "0 = 4 + int k * df" "3 = 3 + int k * dc"
        "\<forall>j. 1 \<le> j \<and> j < k \<longrightarrow> tablero_rayos (4 + int j * df) (3 + int j * dc) = ''...''"
      by blast
    from d k(1-3) have "df = - 1 \<and> dc = 0 \<and> k = 4"
      by (auto simp: Queen_DIRECCIONES_def)
    with k(4) [rule_format, of 3] show False by (simp add: tablero_rayos_apply)
  qed
  have f6: "?R 2 5"
  proof -
    have "\<And>j::nat. 1 \<le> j \<and> j < 2 \<Longrightarrow> j = 1" by arith
    then have "1 \<le> (2::nat) \<and> (2::int) = 4 + int 2 * (- 1) \<and> (5::int) = 3 + int 2 * 1
      \<and> (\<forall>j. 1 \<le> j \<and> j < (2::nat) \<longrightarrow>
            tablero_rayos (4 + int j * (- 1)) (3 + int j * 1) = ''...'')
      \<and> (tablero_rayos 2 5 = ''...'' \<or> take 1 (tablero_rayos 2 5) \<noteq> color ?q)"
      by (auto simp: tablero_rayos_apply col)
    then show ?thesis
      by (intro bexI [of _ "(- 1, 1)"]) (auto simp: Queen_DIRECCIONES_def)
  qed
  from iff [OF b(2) n(2)] d3 have 1: "''d4 d3'' \<in> set movs" by simp
  from iff [OF b(3) n(3)] d2 have 2: "''d4 d2'' \<notin> set movs" by simp
  from iff [OF b(4) n(4)] d7 have 3: "''d4 d7'' \<in> set movs" by simp
  from iff [OF b(5) n(5)] d8 have 4: "''d4 d8'' \<notin> set movs" by simp
  from iff [OF b(6) n(6)] f6 have 5: "''d4 f6'' \<in> set movs" by simp
  from movs 1 2 3 4 5 show ?thesis by blast
qed

end
